theory Spec2Isabelle
  imports Complex_Main
begin

section \<open>Entity simulation and combat resolution (entities.py, combat.py)\<close>

text \<open>
  Numbers: Python mixes \<open>int\<close> and \<open>float\<close> freely in the statistics; both are embedded
  as \<^typ>\<open>real\<close>. The damage formula, whose results the properties below compare with
  each other, rounds after every operation as floating-point arithmetic does (see
  \<open>rounding\<close>); elsewhere the arithmetic is exact.
  Randomness (\<open>random.random()\<close>) and the wall clock (\<open>time.time()\<close>) are inputs: every
  function that draws a random number takes the drawn value as an argument, every function
  that reads the clock takes the time \<open>now\<close>.
  Exceptions are values of type \<open>error\<close>. What a function has written before it raises
  stays written: \<open>update\<close> and the action handlers of the combat session, whose state is
  observed after a raise, return the state together with the error.
\<close>

datatype error = AttributeError | TypeError | KeyError | ZeroDivisionError

subsection \<open>Stats (entities.py, class Stats)\<close>

record Stats =
  health :: real
  max_health :: real
  stamina :: real
  max_stamina :: real
  mana :: real
  max_mana :: real
  strength :: real
  defense :: real
  agility :: real
  intelligence :: real
  critical_chance :: real
  dodge_chance :: real

text \<open>The dataclass defaults: \<open>Stats()\<close>.\<close>

definition default_Stats :: Stats where
  "default_Stats = \<lparr> health = 100, max_health = 100, stamina = 100, max_stamina = 100,
     mana = 0, max_mana = 0, strength = 10, defense = 5, agility = 10, intelligence = 10,
     critical_chance = 5 / 100, dodge_chance = 5 / 100 \<rparr>"

text \<open>
  \<open>getattr(stats, name)\<close> and \<open>setattr(stats, name, v)\<close> on the twelve fields.
  \<open>getattr_stat\<close> is \<open>None\<close> where \<open>hasattr\<close> is false. Attribute names that are not
  fields (methods, special attributes) are not stat names and are treated as absent.
\<close>

definition getattr_stat :: "Stats \<Rightarrow> string \<Rightarrow> real option" where
  "getattr_stat s n =
    (if n = ''health'' then Some (health s)
     else if n = ''max_health'' then Some (max_health s)
     else if n = ''stamina'' then Some (stamina s)
     else if n = ''max_stamina'' then Some (max_stamina s)
     else if n = ''mana'' then Some (mana s)
     else if n = ''max_mana'' then Some (max_mana s)
     else if n = ''strength'' then Some (strength s)
     else if n = ''defense'' then Some (defense s)
     else if n = ''agility'' then Some (agility s)
     else if n = ''intelligence'' then Some (intelligence s)
     else if n = ''critical_chance'' then Some (critical_chance s)
     else if n = ''dodge_chance'' then Some (dodge_chance s)
     else None)"

definition setattr_stat :: "Stats \<Rightarrow> string \<Rightarrow> real \<Rightarrow> Stats" where
  "setattr_stat s n v =
    (if n = ''health'' then s\<lparr>health := v\<rparr>
     else if n = ''max_health'' then s\<lparr>max_health := v\<rparr>
     else if n = ''stamina'' then s\<lparr>stamina := v\<rparr>
     else if n = ''max_stamina'' then s\<lparr>max_stamina := v\<rparr>
     else if n = ''mana'' then s\<lparr>mana := v\<rparr>
     else if n = ''max_mana'' then s\<lparr>max_mana := v\<rparr>
     else if n = ''strength'' then s\<lparr>strength := v\<rparr>
     else if n = ''defense'' then s\<lparr>defense := v\<rparr>
     else if n = ''agility'' then s\<lparr>agility := v\<rparr>
     else if n = ''intelligence'' then s\<lparr>intelligence := v\<rparr>
     else if n = ''critical_chance'' then s\<lparr>critical_chance := v\<rparr>
     else if n = ''dodge_chance'' then s\<lparr>dodge_chance := v\<rparr>
     else s)"

text \<open>\<open>name.startswith('max_')\<close>.\<close>

definition startswith_max :: "string \<Rightarrow> bool" where
  "startswith_max n = (take 4 n = ''max_'')"

text \<open>
  \<open>Stats.modify_stat(stat_name, value, is_percentage)\<close>. The upper bound of a non-max
  stat is \<open>getattr(self, "max_" + name, inf)\<close>: no bound when there is no such field.
\<close>

definition modify_stat :: "Stats \<Rightarrow> string \<Rightarrow> real \<Rightarrow> bool \<Rightarrow> Stats" where
  "modify_stat s stat_name v is_percentage =
    (case getattr_stat s stat_name of
       None \<Rightarrow> s
     | Some current_value \<Rightarrow>
         (let new_value = (if is_percentage then current_value * (1 + v) else current_value + v);
              clamped =
                (if startswith_max stat_name then max 1 new_value
                 else (case getattr_stat s (''max_'' @ stat_name) of
                         None \<Rightarrow> max 0 new_value
                       | Some max_stat \<Rightarrow> min (max 0 new_value) max_stat))
          in setattr_stat s stat_name clamped))"

subsection \<open>StatusEffect, CombatStats, Position\<close>

text \<open>
  \<open>stat_modifiers: Dict[str, float]\<close> is an association list in insertion order; a lookup
  \<open>d[k]\<close> is \<^const>\<open>map_of\<close>. Dataclass equality compares all fields, as equality of the
  record does.
\<close>

record StatusEffect =
  name :: string
  effect_type :: string
  stat_modifiers :: "(string \<times> real) list"
  duration :: int
  tick_interval :: int
  last_tick :: real
  description :: string
  is_permanent :: bool
  can_stack :: bool
  icon :: string

record CombatStats =
  damage_dealt :: real
  damage_taken :: real
  healing_done :: real
  critical_hits :: int
  dodges :: int
  kills :: int
  deaths :: int
  longest_combat :: real
  highest_damage :: real
  highest_combo :: int

definition new_CombatStats :: CombatStats where
  "new_CombatStats = \<lparr> damage_dealt = 0, damage_taken = 0, healing_done = 0,
     critical_hits = 0, dodges = 0, kills = 0, deaths = 0, longest_combat = 0,
     highest_damage = 0, highest_combo = 0 \<rparr>"

text \<open>\<open>CombatStats.update_damage_stats(damage, is_critical)\<close>.\<close>

definition update_damage_stats :: "CombatStats \<Rightarrow> real \<Rightarrow> bool \<Rightarrow> CombatStats" where
  "update_damage_stats cs dmg is_critical =
    (let cs1 = cs\<lparr>damage_dealt := damage_dealt cs + dmg\<rparr>;
         cs2 = (if dmg > highest_damage cs1 then cs1\<lparr>highest_damage := dmg\<rparr> else cs1)
     in if is_critical then cs2\<lparr>critical_hits := critical_hits cs2 + 1\<rparr> else cs2)"

record Position =
  pos_x :: real
  pos_y :: real
  pos_z :: real

definition distance_to :: "Position \<Rightarrow> Position \<Rightarrow> real" where
  "distance_to p other =
     sqrt ((pos_x p - pos_x other)\<^sup>2 + (pos_y p - pos_y other)\<^sup>2 + (pos_z p - pos_z other)\<^sup>2)"

subsection \<open>Inventory, abilities\<close>

text \<open>
  Modelled from the spec: the item/equipment provider. \<open>Inventory.get_equipment_modifiers\<close>
  and \<open>Inventory.get_regeneration_modifiers\<close> are called by \<open>Entity\<close> but defined nowhere
  under src/; the spec (section 6) gives their contract: a mapping of stat name to additive
  modifier and a mapping of resource name to regeneration multiplier. The equipped weapon's
  \<open>damage\<close> property read by the combat session is \<open>None\<close> when no weapon is equipped.
\<close>

record Inventory =
  equipment_modifiers :: "(string \<times> real) list"
  regeneration_modifiers :: "(string \<times> real) list"
  weapon_damage :: "real option"

text \<open>
  An ability as \<open>Entity._load_abilities\<close> stores it. \<open>cost\<close> is used as a dictionary
  (\<open>ability['cost'].get('stamina', 0)\<close>), but the loader's default is the number \<open>0\<close>,
  on which \<open>.get\<close> raises \<open>AttributeError\<close>. The keys \<open>damage_type\<close>,
  \<open>visual_effects\<close> and \<open>skill_type\<close> are never stored by the loader, so
  \<open>ability.get('damage_type', 'physical')\<close> is \<open>'physical'\<close>. Each entry of \<open>effects\<close> is
  the \<open>StatusEffect\<close> that \<open>StatusEffect(**effect_data)\<close> constructs. Requirements on
  skills are only checked for classes with \<open>get_skill_level\<close>, which \<open>Entity\<close> has not.
\<close>

datatype cost = CostNumber real | CostDict "(string \<times> real) list"

record Requirements =
  req_level :: "int option"
  req_stats :: "(string \<times> real) list option"
  req_items :: "(string \<times> int) list option"

record Ability =
  ability_name :: string
  ability_damage :: real
  ability_cooldown :: real
  ability_cost :: cost
  ability_effects :: "StatusEffect list"
  ability_requirements :: Requirements
  ability_range :: real
  area_of_effect :: real

subsection \<open>Entity (entities.py, class Entity(ABC))\<close>

text \<open>
  entities.py defines several classes named \<open>Entity\<close>; the one modelled is the abstract
  base class \<open>Entity(ABC)\<close> with the simulation methods. It defines neither
  \<open>get_skill_level\<close> nor \<open>get_cooldown_reduction\<close>, so every \<open>hasattr\<close> test for them
  is false.
  The fields of \<open>Entity.__init__\<close> that the modelled methods read or write.
  \<open>cooldowns\<close> is the dictionary \<open>_cooldowns\<close> (ability id to expiry time).
\<close>

record Entity =
  entity_id :: string
  entity_name :: string
  level :: int
  stats :: Stats
  position :: Position
  status_effects :: "StatusEffect list"
  is_alive :: bool
  in_combat :: bool
  last_attack_time :: real
  attack_cooldown :: real
  combat_stats :: CombatStats
  inventory :: "Inventory option"
  abilities :: "(string \<times> Ability) list"
  resistances :: "(string \<times> real) list"
  cooldowns :: "(string \<times> real) list"

text \<open>\<open>StatusEffect.apply(target)\<close> and \<open>StatusEffect.remove(target)\<close>.\<close>

definition StatusEffect_apply :: "StatusEffect \<Rightarrow> Entity \<Rightarrow> Entity" where
  "StatusEffect_apply eff target =
     target\<lparr>stats := foldl (\<lambda>s (stat, modifier). modify_stat s stat modifier True)
                          (stats target) (stat_modifiers eff)\<rparr>"

definition StatusEffect_remove :: "StatusEffect \<Rightarrow> Entity \<Rightarrow> Entity" where
  "StatusEffect_remove eff target =
     target\<lparr>stats := foldl (\<lambda>s (stat, modifier). modify_stat s stat (- modifier) True)
                          (stats target) (stat_modifiers eff)\<rparr>"

text \<open>
  The property \<open>Entity.current_stats\<close>: a copy of the base stats, every effect modifier
  applied multiplicatively, then the equipment modifiers additively. For a name that is not
  a field, \<open>getattr(modified_stats, stat, 0)\<close> is 0 and the \<open>setattr\<close> creates an attribute
  that no field reads, so the copy's fields are unchanged.
\<close>

definition current_stats :: "Entity \<Rightarrow> Stats" where
  "current_stats e =
    (let modified_stats =
           foldl (\<lambda>ms eff.
                    foldl (\<lambda>ms (stat, modifier).
                             (case getattr_stat ms stat of
                                None \<Rightarrow> ms
                              | Some current_value \<Rightarrow>
                                  setattr_stat ms stat (current_value * (1 + modifier))))
                          ms (stat_modifiers eff))
                 (stats e) (status_effects e)
     in case inventory e of
          None \<Rightarrow> modified_stats
        | Some invt \<Rightarrow>
            foldl (\<lambda>ms (stat, modifier).
                     (case getattr_stat ms stat of
                        None \<Rightarrow> ms
                      | Some current_value \<Rightarrow> setattr_stat ms stat (current_value + modifier)))
                  modified_stats (equipment_modifiers invt))"

text \<open>
  The sum of one kind of bonus over the active effects, as in
  \<open>for effect in self.status_effects: if key in effect.stat_modifiers: acc += ...[key]\<close>.
\<close>

definition add_effect_bonus :: "string \<Rightarrow> real \<Rightarrow> StatusEffect list \<Rightarrow> real" where
  "add_effect_bonus key start effs =
     foldl (\<lambda>acc eff. (case map_of (stat_modifiers eff) key of
                          None \<Rightarrow> acc | Some b \<Rightarrow> acc + b)) start effs"

text \<open>The same loop with \<open>acc *= (1 + ...[key])\<close>.\<close>

definition mult_effect_modifier :: "string \<Rightarrow> real \<Rightarrow> StatusEffect list \<Rightarrow> real" where
  "mult_effect_modifier key start effs =
     foldl (\<lambda>acc eff. (case map_of (stat_modifiers eff) key of
                          None \<Rightarrow> acc | Some m \<Rightarrow> acc * (1 + m))) start effs"

text \<open>
  \<open>Entity._try_dodge\<close>: \<open>try_dodge_chance\<close> is the value of the local \<open>dodge_chance\<close>
  that the random number is compared with; \<open>roll\<close> is \<open>random.random()\<close>.
\<close>

definition try_dodge_chance :: "Entity \<Rightarrow> real" where
  "try_dodge_chance e =
     min (75 / 100)
         (add_effect_bonus ''dodge_bonus'' (dodge_chance (current_stats e)) (status_effects e))"

definition try_dodge :: "Entity \<Rightarrow> real \<Rightarrow> bool" where
  "try_dodge e roll = (roll < try_dodge_chance e)"

text \<open>\<open>Entity._is_critical_hit\<close>, in the same way.\<close>

definition critical_hit_chance :: "Entity \<Rightarrow> real" where
  "critical_hit_chance e =
     min (75 / 100)
         (add_effect_bonus ''crit_chance_bonus'' (critical_chance (current_stats e))
            (status_effects e))"

definition is_critical_hit :: "Entity \<Rightarrow> real \<Rightarrow> bool" where
  "is_critical_hit e roll = (roll < critical_hit_chance e)"

text \<open>
  Floating point. The code computes in IEEE 754 doubles: the result of an operation is the
  exact result rounded to a floating-point number. A \<open>rounding\<close> is any function with
  the three properties of that rounding which the proofs use: it is monotone, it leaves the
  numbers it returns unchanged, and an integer of magnitude up to \<open>2^53\<close> divided by a
  power of two up to \<open>2^1022\<close> is a floating-point number. The theorems hold for every
  such function. Overflow and NaN are outside the model.
\<close>

typedef rounding =
  "{f :: real \<Rightarrow> real.
      (\<forall>x y. x \<le> y \<longrightarrow> f x \<le> f y) \<and> (\<forall>x. f (f x) = f x)
      \<and> (\<forall>n k. \<bar>n :: int\<bar> \<le> 2 ^ 53 \<and> (k :: nat) \<le> 1022 \<longrightarrow>
             f (of_int n / 2 ^ k) = of_int n / 2 ^ k)}"
  by (rule exI [of _ "\<lambda>x. x"]) simp

definition rnd :: "rounding \<Rightarrow> real \<Rightarrow> real" where
  "rnd fl = Rep_rounding fl"

text \<open>
  Python's \<open>round(x, 1)\<close> on a double \<open>x\<close>: the decimal with one digit nearest to the
  exact value of \<open>x\<close>, a tie to the even digit, and then the double nearest to that
  decimal.
\<close>

definition round_half_even :: "real \<Rightarrow> int" where
  "round_half_even y =
    (let f = \<lfloor>y\<rfloor>; r = y - of_int f
     in if r < 1 / 2 then f
        else if 1 / 2 < r then f + 1
        else if even f then f else f + 1)"

definition round1 :: "rounding \<Rightarrow> real \<Rightarrow> real" where
  "round1 fl v = rnd fl (of_int (round_half_even (v * 10)) / 10)"

text \<open>
  The loop \<open>damage *= (1 + effect.stat_modifiers['damage_taken_modifier'])\<close> over the
  active effects, in floating point.
\<close>

definition damage_taken_modifiers :: "rounding \<Rightarrow> real \<Rightarrow> StatusEffect list \<Rightarrow> real" where
  "damage_taken_modifiers fl start effs =
     foldl (\<lambda>acc eff. (case map_of (stat_modifiers eff) ''damage_taken_modifier'' of
                          None \<Rightarrow> acc
                        | Some m \<Rightarrow> rnd fl (acc * rnd fl (1 + m)))) start effs"

text \<open>
  \<open>Entity._calculate_damage(base_damage, damage_type)\<close>, every operation rounded. The
  division raises \<open>ZeroDivisionError\<close> when \<open>defense + 100\<close> is 0.
\<close>

definition calculate_damage :: "rounding \<Rightarrow> Entity \<Rightarrow> real \<Rightarrow> string \<Rightarrow> error + real" where
  "calculate_damage fl e base_damage damage_type =
    (let resistance = (case map_of (resistances e) damage_type of None \<Rightarrow> 0 | Some r \<Rightarrow> r);
         dmg = damage_taken_modifiers fl (rnd fl (base_damage * rnd fl (1 - resistance)))
                 (status_effects e);
         current_defense = defense (current_stats e);
         divisor = rnd fl (current_defense + 100)
     in if divisor = 0 then Inl ZeroDivisionError
        else
          (let defense_reduction = rnd fl (current_defense / divisor)
           in Inr (round1 fl (max 0 (rnd fl (dmg * rnd fl (1 - defense_reduction)))))))"

text \<open>
  \<open>Entity._remove_effect\<close>: \<open>list.remove\<close> deletes the first equal element and raises
  \<open>ValueError\<close>, which is caught, when there is none; the stats are reverted first.
\<close>

definition remove_effect :: "Entity \<Rightarrow> StatusEffect \<Rightarrow> Entity" where
  "remove_effect e eff =
    (let e1 = StatusEffect_remove eff e
     in e1\<lparr>status_effects := remove1 eff (status_effects e1)\<rparr>)"

text \<open>
  \<open>Entity.die\<close>. The loop runs over a copy of the effect list. The hook
  \<open>_trigger_death_effects\<close> of the base class does nothing.
\<close>

definition die :: "Entity \<Rightarrow> Entity" where
  "die e =
    (if \<not> is_alive e then e
     else
       (let e1 = e\<lparr>is_alive := False\<rparr>;
            e2 = e1\<lparr>stats := (stats e1)\<lparr>health := 0\<rparr>\<rparr>;
            e3 = e2\<lparr>combat_stats := (combat_stats e2)\<lparr>deaths := deaths (combat_stats e2) + 1\<rparr>\<rparr>
        in foldl (\<lambda>en eff. if \<not> is_permanent eff then remove_effect en eff else en)
                 e3 (status_effects e3)))"

text \<open>
  \<open>Entity.take_damage(damage, damage_type)\<close>; \<open>roll\<close> is the random number of
  \<open>_try_dodge\<close>. The result is the new state and the returned triple. The only raise,
  that of \<open>_calculate_damage\<close>, comes before anything is written.
\<close>

definition take_damage ::
  "rounding \<Rightarrow> Entity \<Rightarrow> real \<Rightarrow> string \<Rightarrow> real
     \<Rightarrow> error + (Entity \<times> (real \<times> bool \<times> bool))" where
  "take_damage fl e dmg damage_type roll =
    (if \<not> is_alive e then Inr (e, (0, False, False))
     else if try_dodge e roll then
       Inr (e\<lparr>combat_stats := (combat_stats e)\<lparr>dodges := dodges (combat_stats e) + 1\<rparr>\<rparr>,
            (0, True, False))
     else
       (case calculate_damage fl e dmg damage_type of
          Inl err \<Rightarrow> Inl err
        | Inr actual_damage \<Rightarrow>
            (let e1 = e\<lparr>stats := (stats e)\<lparr>health := max 0 (health (stats e) - actual_damage)\<rparr>\<rparr>;
                 e2 = e1\<lparr>combat_stats := (combat_stats e1)
                          \<lparr>damage_taken := damage_taken (combat_stats e1) + actual_damage\<rparr>\<rparr>;
                 e3 = (if health (stats e2) \<le> 0 then die e2 else e2)
             in Inr (e3, (actual_damage, False, False)))))"

text \<open>
  \<open>Entity.heal(amount, source)\<close>; \<open>source\<close> is only logged. \<open>healing_modifier\<close> is the
  local of that name after the loop over the effects.
\<close>

definition healing_modifier :: "Entity \<Rightarrow> real" where
  "healing_modifier e = mult_effect_modifier ''healing_received_modifier'' 1 (status_effects e)"

definition heal :: "Entity \<Rightarrow> real \<Rightarrow> Entity \<times> real" where
  "heal e amount =
    (if \<not> is_alive e then (e, 0)
     else
       (let actual_healing = amount * healing_modifier e;
            old_health = health (stats e);
            e1 = e\<lparr>stats := (stats e)\<lparr>health := min (max_health (stats e)) (old_health + actual_healing)\<rparr>\<rparr>;
            healing = health (stats e1) - old_health
        in (e1\<lparr>combat_stats := (combat_stats e1)
                 \<lparr>healing_done := healing_done (combat_stats e1) + healing\<rparr>\<rparr>, healing)))"

text \<open>\<open>Entity.resurrect(health_percentage)\<close>; the default argument is \<open>0.5\<close>.\<close>

definition resurrect :: "Entity \<Rightarrow> real \<Rightarrow> Entity" where
  "resurrect e health_percentage =
    (if is_alive e then e
     else
       (let e1 = e\<lparr>is_alive := True\<rparr>;
            e2 = e1\<lparr>stats := (stats e1)\<lparr>health := max_health (stats e1) * health_percentage\<rparr>\<rparr>;
            e3 = e2\<lparr>stats := (stats e2)\<lparr>stamina := max_stamina (stats e2) * (1 / 2)\<rparr>\<rparr>
        in e3\<lparr>stats := (stats e3)\<lparr>mana := max_mana (stats e3) * (1 / 2)\<rparr>\<rparr>))"

subsection \<open>Entity.update\<close>

text \<open>
  \<open>Entity._apply_effect_tick\<close>. In the \<open>resource_regen\<close> branch
  \<open>getattr(self.stats, 'max_' + resource)\<close> has no default and raises
  \<open>AttributeError\<close> for a stat without a \<open>max_\<close> counterpart; the resources written
  before it stay written. The result is the state and the exception raised, if any.
\<close>

fun resource_regen_tick :: "Stats \<Rightarrow> (string \<times> real) list \<Rightarrow> Stats \<times> error option" where
  "resource_regen_tick s [] = (s, None)"
| "resource_regen_tick s ((resource, v) # rest) =
    (case getattr_stat s resource of
       None \<Rightarrow> resource_regen_tick s rest
     | Some current \<Rightarrow>
         (case getattr_stat s (''max_'' @ resource) of
            None \<Rightarrow> (s, Some AttributeError)
          | Some max_value \<Rightarrow>
              resource_regen_tick (setattr_stat s resource (min max_value (current + v))) rest))"

definition apply_effect_tick ::
  "rounding \<Rightarrow> Entity \<Rightarrow> StatusEffect \<Rightarrow> real \<Rightarrow> Entity \<times> error option" where
  "apply_effect_tick fl e eff roll =
    (if effect_type eff = ''dot'' then
       (case take_damage fl e (sum_list (map snd (stat_modifiers eff))) ''magical'' roll of
          Inl err \<Rightarrow> (e, Some err)
        | Inr (e', res) \<Rightarrow> (e', None))
     else if effect_type eff = ''hot'' then
       (fst (heal e (sum_list (map snd (stat_modifiers eff)))), None)
     else if effect_type eff = ''resource_regen'' then
       (case resource_regen_tick (stats e) (stat_modifiers eff) of
          (s, err) \<Rightarrow> (e\<lparr>stats := s\<rparr>, err))
     else (e, None))"

text \<open>No step of a tick lengthens the list of active effects.\<close>

lemma status_effects_StatusEffect_remove:
  "status_effects (StatusEffect_remove eff e) = status_effects e"
  by (simp add: StatusEffect_remove_def)

lemma is_alive_StatusEffect_remove:
  "is_alive (StatusEffect_remove eff e) = is_alive e"
  by (simp add: StatusEffect_remove_def)

lemma length_remove_effect:
  "length (status_effects (remove_effect e eff)) \<le> length (status_effects e)"
  by (simp add: remove_effect_def Let_def status_effects_StatusEffect_remove length_remove1)

lemma length_remove_effects_fold:
  "length (status_effects (foldl (\<lambda>en eff. if \<not> is_permanent eff then remove_effect en eff else en) e effs))
     \<le> length (status_effects e)"
proof (induction effs arbitrary: e)
  case Nil
  then show ?case by simp
next
  case (Cons a effs)
  show ?case
  proof (cases "is_permanent a")
    case True
    then show ?thesis using Cons.IH [of e] by simp
  next
    case False
    then show ?thesis
      using Cons.IH [of "remove_effect e a"] length_remove_effect [of e a] by simp
  qed
qed

lemma length_die: "length (status_effects (die e)) \<le> length (status_effects e)"
  using length_remove_effects_fold
    [of "e\<lparr>is_alive := False, stats := (stats e)\<lparr>health := 0\<rparr>,
           combat_stats := (combat_stats e)\<lparr>deaths := deaths (combat_stats e) + 1\<rparr>\<rparr>"
        "status_effects e"]
  by (simp add: die_def Let_def)

lemma length_die_le:
  "length (status_effects e0) \<le> n \<Longrightarrow> length (status_effects (die e0)) \<le> n"
  using length_die [of e0] by linarith

lemma length_take_damage:
  "take_damage fl e dmg ty roll = Inr (e', res) \<Longrightarrow>
     length (status_effects e') \<le> length (status_effects e)"
  unfolding take_damage_def Let_def
  by (auto split: if_splits sum.splits intro!: length_die_le)

lemma status_effects_heal: "status_effects (fst (heal e amount)) = status_effects e"
  by (simp add: heal_def Let_def)

lemma length_apply_effect_tick:
  "apply_effect_tick fl e eff roll = (e', err) \<Longrightarrow>
     length (status_effects e') \<le> length (status_effects e)"
  unfolding apply_effect_tick_def
  by (auto split: if_splits sum.splits prod.splits dest: length_take_damage
      simp: status_effects_heal)

text \<open>
  \<open>Entity._update_status_effects\<close>: \<open>for effect in self.status_effects\<close> reads the
  list by index, and the list can shrink under the loop (a lethal \<open>dot\<close> tick calls
  \<open>die\<close>, which removes the temporary effects from the same list object), so the loop
  is a recursion on the index \<open>i\<close> over the list as it is at each step. The effect
  objects are mutated in place: the decremented duration is visible in the list before the
  tick, and \<open>last_tick\<close> is written after the tick into the same object where it then
  stands in the list: at index \<open>i\<close>, or, when the actor died in this tick, at the number
  of permanent effects before it if it is permanent and nowhere if it was removed.
  \<open>rng i\<close> is the random number drawn in iteration \<open>i\<close>. When a tick raises, the loop
  is left with the state as it is, and the list is not replaced.
\<close>

function update_status_effects_loop ::
  "rounding \<Rightarrow> real \<Rightarrow> (nat \<Rightarrow> real) \<Rightarrow> nat \<Rightarrow> StatusEffect list \<Rightarrow> Entity
     \<Rightarrow> Entity \<times> StatusEffect list \<times> error option" where
  "update_status_effects_loop fl game_time rng i active_effects e =
    (if i < length (status_effects e) then
       (let effect = status_effects e ! i
        in if is_permanent effect \<or> duration effect > 0 then
             (let effect1 = (if \<not> is_permanent effect
                             then effect\<lparr>duration := duration effect - 1\<rparr> else effect);
                  e1 = e\<lparr>status_effects := (status_effects e)[i := effect1]\<rparr>
              in if game_time - last_tick effect1 \<ge> of_int (tick_interval effect1) then
                   (case apply_effect_tick fl e1 effect1 (rng i) of
                      (e2, Some err) \<Rightarrow> (e2, active_effects, Some err)
                    | (e2, None) \<Rightarrow>
                        (let effect2 = effect1\<lparr>last_tick := game_time\<rparr>;
                             e3 = (if is_alive e1 \<and> \<not> is_alive e2 then
                                     (if is_permanent effect1
                                      then e2\<lparr>status_effects := (status_effects e2)
                                             [length (filter is_permanent (take i (status_effects e1)))
                                                := effect2]\<rparr>
                                      else e2)
                                   else e2\<lparr>status_effects := (status_effects e2)[i := effect2]\<rparr>)
                         in update_status_effects_loop fl game_time rng (Suc i)
                              (active_effects @ [effect2]) e3))
                 else update_status_effects_loop fl game_time rng (Suc i)
                        (active_effects @ [effect1]) e1)
           else update_status_effects_loop fl game_time rng (Suc i) active_effects
                  (StatusEffect_remove effect e))
     else (e, active_effects, None))"
  by pat_completeness auto
termination
proof (relation "measure (\<lambda>(fl, game_time, rng, i, active_effects, e). length (status_effects e) - i)",
    goal_cases)
  case 1
  show ?case by simp
next
  case (2 fl game_time rng i active_effects e effect effect1 e1 e2 y effect2 e3)
  then have "apply_effect_tick fl e1 effect1 (rng i) = (e2, None)" by simp
  from length_apply_effect_tick [OF this] 2 show ?case by (auto split: if_splits)
next
  case (3 fl game_time rng i active_effects e effect effect1 e1)
  then show ?case by auto
next
  case (4 fl game_time rng i active_effects e effect)
  then show ?case by (auto simp: status_effects_StatusEffect_remove)
qed

definition update_status_effects ::
  "rounding \<Rightarrow> Entity \<Rightarrow> real \<Rightarrow> (nat \<Rightarrow> real) \<Rightarrow> Entity \<times> error option" where
  "update_status_effects fl e game_time rng =
    (case update_status_effects_loop fl game_time rng 0 [] e of
       (e', active_effects, Some err) \<Rightarrow> (e', Some err)
     | (e', active_effects, None) \<Rightarrow> (e'\<lparr>status_effects := active_effects\<rparr>, None))"

text \<open>
  \<open>Entity.get_regeneration_modifiers\<close>. The modifiers of an effect are numbers, so
  \<open>effect.stat_modifiers['regeneration']['resource']\<close> raises \<open>TypeError\<close> when an effect
  has the key \<open>regeneration\<close>; \<open>modifiers[resource] *= ...\<close> raises \<open>KeyError\<close> for a
  resource of the equipment that is not one of the three keys.
\<close>

fun equipment_regeneration ::
  "(string \<rightharpoonup> real) \<Rightarrow> (string \<times> real) list \<Rightarrow> error + (string \<rightharpoonup> real)" where
  "equipment_regeneration modifiers [] = Inr modifiers"
| "equipment_regeneration modifiers ((resource, v) # rest) =
    (case modifiers resource of
       None \<Rightarrow> Inl KeyError
     | Some m \<Rightarrow> equipment_regeneration (modifiers(resource \<mapsto> m * (1 + v))) rest)"

definition get_regeneration_modifiers :: "Entity \<Rightarrow> error + (string \<rightharpoonup> real)" where
  "get_regeneration_modifiers e =
    (let modifiers = [''health'' \<mapsto> 1, ''stamina'' \<mapsto> 1, ''mana'' \<mapsto> (1::real)]
     in if list_ex (\<lambda>eff. map_of (stat_modifiers eff) ''regeneration'' \<noteq> None) (status_effects e)
        then Inl TypeError
        else (case inventory e of
                None \<Rightarrow> Inr modifiers
              | Some invt \<Rightarrow> equipment_regeneration modifiers (regeneration_modifiers invt)))"

text \<open>
  \<open>Entity._update_resources\<close>; \<open>regen_modifiers.get(key, 1.0)\<close>. The only raise, that
  of \<open>get_regeneration_modifiers\<close>, comes before anything is written.
\<close>

definition update_resources :: "Entity \<Rightarrow> error + Entity" where
  "update_resources e =
    (case get_regeneration_modifiers e of
       Inl err \<Rightarrow> Inl err
     | Inr regen_modifiers \<Rightarrow>
         (let s = stats e;
              s1 = (if stamina s < max_stamina s
                    then s\<lparr>stamina := min (max_stamina s)
                           (stamina s + 5 * (case regen_modifiers ''stamina'' of
                                               None \<Rightarrow> 1 | Some m \<Rightarrow> m))\<rparr>
                    else s);
              s2 = (if mana s1 < max_mana s1
                    then s1\<lparr>mana := min (max_mana s1)
                           (mana s1 + 2 * (case regen_modifiers ''mana'' of
                                             None \<Rightarrow> 1 | Some m \<Rightarrow> m))\<rparr>
                    else s1)
          in Inr (e\<lparr>stats := s2\<rparr>)))"

text \<open>
  \<open>Entity.update(game_time)\<close>. After the death check the method calls
  \<open>self._update_cooldowns(game_time)\<close>, and no class of entities defines
  \<open>_update_cooldowns\<close>: the call raises \<open>AttributeError\<close>, and the lines after it are
  never reached. So \<open>update\<close> always ends in an exception; the result is the state it has
  written by then and that exception.
\<close>

definition update :: "rounding \<Rightarrow> Entity \<Rightarrow> real \<Rightarrow> (nat \<Rightarrow> real) \<Rightarrow> Entity \<times> error" where
  "update fl e game_time rng =
    (case update_status_effects fl e game_time rng of
       (e1, Some err) \<Rightarrow> (e1, err)
     | (e1, None) \<Rightarrow>
         (case update_resources e1 of
            Inl err \<Rightarrow> (e1, err)
          | Inr e2 \<Rightarrow>
              (if health (stats e2) \<le> 0 \<and> is_alive e2 then die e2 else e2, AttributeError)))"

subsection \<open>Abilities (Entity.use_ability and what it calls)\<close>

text \<open>
  The formatted messages of \<open>can_use_ability\<close> and \<open>use_ability\<close>, by their kind and the
  values substituted into them, and the descriptors appended to the \<open>effects\<close> list.
\<close>

datatype message =
    NoMessage
  | UnknownAbility
  | OnCooldown real
  | InsufficientStamina
  | InsufficientMana
  | RequirementsNotMet
  | OutOfRange
  | Dodged string string
  | UsedAbility string real bool

datatype effect_descr =
    DamageDescr string real bool
  | AoeDamageDescr string real
  | StatusDescr string string

text \<open>\<open>d.get(key, 0)\<close> on a dictionary of numbers.\<close>

definition dict_get0 :: "(string \<times> real) list \<Rightarrow> string \<Rightarrow> real" where
  "dict_get0 d k = (case map_of d k of None \<Rightarrow> 0 | Some v \<Rightarrow> v)"

text \<open>
  \<open>Entity._check_ability_requirements\<close>. \<open>Inventory.has_item\<close> takes one argument and is
  called with two, which raises \<open>TypeError\<close> at the first required item.
\<close>

definition check_ability_requirements :: "Entity \<Rightarrow> Ability \<Rightarrow> error + bool" where
  "check_ability_requirements e ability =
    (let requirements = ability_requirements ability
     in if (case req_level requirements of None \<Rightarrow> False | Some l \<Rightarrow> level e < l)
        then Inr False
        else if (case req_stats requirements of
                   None \<Rightarrow> False
                 | Some sts \<Rightarrow>
                     list_ex (\<lambda>(stat, v).
                                (case getattr_stat (current_stats e) stat of
                                   None \<Rightarrow> 0 | Some c \<Rightarrow> c) < v) sts)
        then Inr False
        else (case req_items requirements of
                None \<Rightarrow> Inr True
              | Some items \<Rightarrow>
                  if inventory e \<noteq> None \<and> items \<noteq> [] then Inl TypeError else Inr True))"

definition is_on_cooldown :: "Entity \<Rightarrow> string \<Rightarrow> real \<Rightarrow> bool" where
  "is_on_cooldown e ability_id now =
     (case map_of (cooldowns e) ability_id of None \<Rightarrow> False | Some expiry \<Rightarrow> expiry > now)"

definition get_remaining_cooldown :: "Entity \<Rightarrow> string \<Rightarrow> real \<Rightarrow> real" where
  "get_remaining_cooldown e ability_id now =
     (if \<not> is_on_cooldown e ability_id now then 0
      else (case map_of (cooldowns e) ability_id of None \<Rightarrow> 0 | Some expiry \<Rightarrow> expiry - now))"

text \<open>\<open>Entity.can_use_ability\<close>.\<close>

definition can_use_ability :: "Entity \<Rightarrow> string \<Rightarrow> real \<Rightarrow> error + (bool \<times> message)" where
  "can_use_ability e ability_id now =
    (case map_of (abilities e) ability_id of
       None \<Rightarrow> Inr (False, UnknownAbility)
     | Some ability \<Rightarrow>
         if is_on_cooldown e ability_id now
         then Inr (False, OnCooldown (get_remaining_cooldown e ability_id now))
         else (case ability_cost ability of
                 CostNumber c \<Rightarrow> Inl AttributeError
               | CostDict c \<Rightarrow>
                   if stamina (stats e) < dict_get0 c ''stamina'' then Inr (False, InsufficientStamina)
                   else if mana (stats e) < dict_get0 c ''mana'' then Inr (False, InsufficientMana)
                   else (case check_ability_requirements e ability of
                           Inl err \<Rightarrow> Inl err
                         | Inr ok \<Rightarrow>
                             if \<not> ok then Inr (False, RequirementsNotMet)
                             else Inr (True, NoMessage))))"

text \<open>\<open>Entity._is_in_ability_range\<close>: every entity has a position.\<close>

definition is_in_ability_range :: "Entity \<Rightarrow> Entity \<Rightarrow> Ability \<Rightarrow> bool" where
  "is_in_ability_range e target ability =
     (distance_to (position e) (position target) \<le> ability_range ability)"

text \<open>\<open>Entity._get_critical_multiplier\<close> and \<open>Entity._modify_outgoing_damage\<close>.\<close>

definition get_critical_multiplier :: "Entity \<Rightarrow> real" where
  "get_critical_multiplier e = add_effect_bonus ''crit_damage_bonus'' 2 (status_effects e)"

text \<open>\<open>sub in s\<close> on strings.\<close>

fun str_contains :: "string \<Rightarrow> string \<Rightarrow> bool" where
  "str_contains sub [] = (sub = [])"
| "str_contains sub (c # cs) = (take (length sub) (c # cs) = sub \<or> str_contains sub cs)"

definition modify_outgoing_damage :: "Entity \<Rightarrow> real \<Rightarrow> string \<Rightarrow> real" where
  "modify_outgoing_damage e dmg damage_type =
    (let damage_bonus =
           (if damage_type = ''physical'' then 1 + strength (current_stats e) / 100
            else if str_contains ''magical'' damage_type
            then 1 + intelligence (current_stats e) / 100
            else 1)
     in dmg * add_effect_bonus ''damage_dealt_modifier'' damage_bonus (status_effects e))"

subsection \<open>Operations on two entities\<close>

text \<open>
  \<open>deal_damage\<close> and \<open>use_ability\<close> act on the caller and on a target, which may be the
  same object. Entities live in a store, a function from references to entities, and the
  operations take the references. The result of a call that raises is the error alone;
  the theorems about these operations are about calls that return.
\<close>

type_synonym store = "nat \<Rightarrow> Entity"

text \<open>
  \<open>Entity.deal_damage(target, base_damage, damage_type)\<close>; \<open>crit_roll\<close> and \<open>dodge_roll\<close>
  are the random numbers of \<open>_is_critical_hit\<close> and of the target's \<open>_try_dodge\<close>.
\<close>

definition deal_damage ::
  "rounding \<Rightarrow> store \<Rightarrow> nat \<Rightarrow> nat \<Rightarrow> real \<Rightarrow> string \<Rightarrow> real \<Rightarrow> real
     \<Rightarrow> error + (store \<times> (real \<times> bool \<times> bool))" where
  "deal_damage fl h self target base_damage damage_type crit_roll dodge_roll =
    (if \<not> is_alive (h target) \<or> \<not> is_alive (h self) then Inr (h, (0, False, False))
     else
       (let is_critical = is_critical_hit (h self) crit_roll;
            base1 = (if is_critical then base_damage * get_critical_multiplier (h self)
                     else base_damage);
            h1 = (if is_critical
                  then h(self := (h self)\<lparr>combat_stats := (combat_stats (h self))
                          \<lparr>critical_hits := critical_hits (combat_stats (h self)) + 1\<rparr>\<rparr>)
                  else h);
            dmg = modify_outgoing_damage (h1 self) base1 damage_type
        in case take_damage fl (h1 target) dmg damage_type dodge_roll of
             Inl err \<Rightarrow> Inl err
           | Inr (target1, (actual_damage, was_dodged, was_crit)) \<Rightarrow>
               (let h2 = h1(target := target1);
                    h3 = h2(self := (h2 self)\<lparr>combat_stats :=
                            update_damage_stats (combat_stats (h2 self)) actual_damage is_critical\<rparr>)
                in Inr (h3, (actual_damage, was_dodged, is_critical)))))"

text \<open>
  \<open>Entity.add_status_effect\<close>. The loop returns at the first active effect of the same
  name when the new effect does not stack, and does nothing otherwise.
\<close>

fun find_by_name :: "string \<Rightarrow> StatusEffect list \<Rightarrow> nat \<Rightarrow> nat option" where
  "find_by_name n [] i = None"
| "find_by_name n (x # xs) i = (if name x = n then Some i else find_by_name n xs (Suc i))"

definition add_status_effect :: "Entity \<Rightarrow> StatusEffect \<Rightarrow> Entity" where
  "add_status_effect e eff =
    (case (if can_stack eff then None else find_by_name (name eff) (status_effects e) 0) of
       Some i \<Rightarrow>
         (let existing_effect = status_effects e ! i
          in if sum_list (map snd (stat_modifiers eff))
                  > sum_list (map snd (stat_modifiers existing_effect))
             then
               (let e1 = StatusEffect_remove existing_effect e;
                    e2 = e1\<lparr>status_effects := remove1 existing_effect (status_effects e1)\<rparr>;
                    e3 = StatusEffect_apply eff e2
                in e3\<lparr>status_effects := status_effects e3 @ [eff]\<rparr>)
             else e\<lparr>status_effects := (status_effects e)
                     [i := existing_effect\<lparr>duration := max (duration existing_effect) (duration eff)\<rparr>]\<rparr>)
     | None \<Rightarrow>
         (let e1 = StatusEffect_apply eff e
          in e1\<lparr>status_effects := status_effects e1 @ [eff]\<rparr>))"

text \<open>
  \<open>Entity._get_targets_in_range\<close> of the base class returns the empty list. The loop of
  \<open>use_ability\<close> over the targets in the area draws two random numbers for each of them.
\<close>

definition get_targets_in_range :: "Position \<Rightarrow> real \<Rightarrow> nat list" where
  "get_targets_in_range center radius = []"

fun area_damage ::
  "rounding \<Rightarrow> store \<Rightarrow> nat \<Rightarrow> nat option \<Rightarrow> Ability \<Rightarrow> (nat \<Rightarrow> real \<times> real) \<Rightarrow> nat list
     \<Rightarrow> effect_descr list \<Rightarrow> error + (store \<times> effect_descr list)" where
  "area_damage fl h self target ability rolls [] effects = Inr (h, effects)"
| "area_damage fl h self target ability rolls (aoe_target # rest) effects =
    (if Some aoe_target \<noteq> target then
       (case deal_damage fl h self aoe_target (ability_damage ability * (1 / 2)) ''physical''
               (fst (rolls aoe_target)) (snd (rolls aoe_target)) of
          Inl err \<Rightarrow> Inl err
        | Inr (h1, (actual_damage, was_dodged, was_crit)) \<Rightarrow>
            area_damage fl h1 self target ability rolls rest
              (effects @ [AoeDamageDescr (entity_id (h1 aoe_target)) actual_damage]))
     else area_damage fl h self target ability rolls rest effects)"

text \<open>The loop of \<open>use_ability\<close> over the ability's status effects.\<close>

fun attach_effects ::
  "store \<Rightarrow> nat \<Rightarrow> nat option \<Rightarrow> StatusEffect list \<Rightarrow> effect_descr list
     \<Rightarrow> store \<times> effect_descr list" where
  "attach_effects h self target [] effects = (h, effects)"
| "attach_effects h self target (eff # rest) effects =
    (let r = (case target of Some t \<Rightarrow> t | None \<Rightarrow> self)
     in attach_effects (h(r := add_status_effect (h r) eff)) self target rest
          (effects @ [StatusDescr (entity_id (h r)) (name eff)]))"

text \<open>The assignment \<open>d[k] = v\<close> on a dictionary.\<close>

fun dict_set :: "(string \<times> real) list \<Rightarrow> string \<Rightarrow> real \<Rightarrow> (string \<times> real) list" where
  "dict_set [] k v = [(k, v)]"
| "dict_set ((k', v') # rest) k v =
     (if k' = k then (k, v) # rest else (k', v') # dict_set rest k v)"

text \<open>\<open>Entity._set_ability_cooldown\<close>: \<open>Entity\<close> has no \<open>get_cooldown_reduction\<close>.\<close>

definition set_ability_cooldown :: "Entity \<Rightarrow> string \<Rightarrow> Ability \<Rightarrow> real \<Rightarrow> Entity" where
  "set_ability_cooldown e ability_id ability now =
     e\<lparr>cooldowns := dict_set (cooldowns e) ability_id (now + ability_cooldown ability)\<rparr>"

text \<open>
  The block \<open>if target and ability['damage'] > 0\<close> of \<open>use_ability\<close>: the call of
  \<open>deal_damage\<close> on the primary target. The result names the target hit and the triple
  \<open>deal_damage\<close> returned, or is \<open>None\<close> when the block is skipped.
\<close>

definition primary_damage ::
  "rounding \<Rightarrow> store \<Rightarrow> nat \<Rightarrow> Ability \<Rightarrow> nat option \<Rightarrow> real \<Rightarrow> real
     \<Rightarrow> error + (store \<times> (nat \<times> real \<times> bool \<times> bool) option)" where
  "primary_damage fl h self ability target crit_roll dodge_roll =
    (case target of
       None \<Rightarrow> Inr (h, None)
     | Some t \<Rightarrow>
         if ability_damage ability > 0 then
           (case deal_damage fl h self t (ability_damage ability) ''physical'' crit_roll dodge_roll of
              Inl err \<Rightarrow> Inl err
            | Inr (h1, res) \<Rightarrow> Inr (h1, Some (t, res)))
         else Inr (h, None))"

text \<open>
  \<open>Entity.use_ability(ability_id, target, position)\<close>, in the order of the source:
  \<open>can_use_ability\<close>, the range check, the resources spent, the primary damage (a dodge
  returns failure), the area damage, the status effects, the cooldown. \<open>Entity\<close> has no
  \<open>get_skill_level\<close>, so the damage is the ability's own.
\<close>

definition use_ability ::
  "rounding \<Rightarrow> store \<Rightarrow> nat \<Rightarrow> string \<Rightarrow> nat option \<Rightarrow> Position option \<Rightarrow> real \<Rightarrow> real \<Rightarrow> real
     \<Rightarrow> (nat \<Rightarrow> real \<times> real) \<Rightarrow> error + (store \<times> (bool \<times> message \<times> effect_descr list))" where
  "use_ability fl h self ability_id target pos now crit_roll dodge_roll rolls =
    (case can_use_ability (h self) ability_id now of
       Inl err \<Rightarrow> Inl err
     | Inr (can_use, msg) \<Rightarrow>
         if \<not> can_use then Inr (h, (False, msg, []))
         else
           (case map_of (abilities (h self)) ability_id of
              None \<Rightarrow> Inl KeyError
            | Some ability \<Rightarrow>
                if (case target of
                      None \<Rightarrow> False
                    | Some t \<Rightarrow> \<not> is_in_ability_range (h self) (h t) ability)
                then Inr (h, (False, OutOfRange, []))
                else
                  (case ability_cost ability of
                     CostNumber c \<Rightarrow> Inl AttributeError
                   | CostDict c \<Rightarrow>
                       (let h1 = h(self := (h self)\<lparr>stats := (stats (h self))
                                   \<lparr>stamina := stamina (stats (h self)) - dict_get0 c ''stamina''\<rparr>\<rparr>);
                            h2 = h1(self := (h1 self)\<lparr>stats := (stats (h1 self))
                                   \<lparr>mana := mana (stats (h1 self)) - dict_get0 c ''mana''\<rparr>\<rparr>)
                        in case primary_damage fl h2 self ability target crit_roll dodge_roll of
                             Inl err \<Rightarrow> Inl err
                           | Inr (h3, Some (t, actual_damage, True, was_crit)) \<Rightarrow>
                               Inr (h3, (False,
                                         Dodged (entity_name (h3 t)) (ability_name ability), []))
                           | Inr (h3, hit) \<Rightarrow>
                               (let effects0 =
                                      (case hit of
                                         None \<Rightarrow> []
                                       | Some (t, actual_damage, was_dodged, was_crit) \<Rightarrow>
                                           [DamageDescr (entity_id (h3 t)) actual_damage was_crit]);
                                    msg1 =
                                      (case hit of
                                         None \<Rightarrow> msg
                                       | Some (t, actual_damage, was_dodged, was_crit) \<Rightarrow>
                                           UsedAbility (ability_name ability) actual_damage was_crit)
                                in case (if area_of_effect ability > 0
                                         then area_damage fl h3 self target ability rolls
                                                (get_targets_in_range
                                                   (case pos of
                                                      None \<Rightarrow> position (h3 self)
                                                    | Some p \<Rightarrow> p)
                                                   (area_of_effect ability))
                                                effects0
                                         else Inr (h3, effects0)) of
                                     Inl err \<Rightarrow> Inl err
                                   | Inr (h4, effects1) \<Rightarrow>
                                       (case attach_effects h4 self target
                                               (ability_effects ability) effects1 of
                                          (h5, effects2) \<Rightarrow>
                                            Inr (h5(self := set_ability_cooldown (h5 self)
                                                              ability_id ability now),
                                                 (True, msg1, effects2))))))))"

subsection \<open>CombatInstance (combat.py)\<close>

text \<open>
  The session holds references to its two participants. \<open>combat_stats_dict\<close> is the
  attribute \<open>self.combat_stats\<close>, a dictionary of counters that the handlers update and
  \<open>__init__\<close> never creates: it is \<open>None\<close> while the attribute does not exist, and any
  use of it then raises \<open>AttributeError\<close>; an update of a key that a dictionary assigned
  from outside has not raises \<open>KeyError\<close>. \<open>game_config.get('game_time', 0)\<close> is the
  argument \<open>game_time\<close>. The log keeps the kind of each message and the values
  substituted into it.
\<close>

record PlayerStatus =
  ps_stamina :: real
  ps_defense_bonus :: real
  combo_counter :: int
  ps_dodge_chance :: real
  ps_crit_chance :: real

record EnemyStatus =
  es_defense_bonus :: real
  aggression_level :: real

datatype log_message =
    CriticalHitLog
  | ComboBonusLog
  | DamageDealtLog real bool
  | DefenseStanceLog real

record LogEntry =
  log_text :: log_message
  log_type :: string
  log_turn :: int
  log_time :: real

record CombatInstance =
  combat_id :: string
  player :: nat
  enemy :: nat
  start_time :: real
  end_time :: "real option"
  turn :: int
  last_action_time :: real
  combat_log :: "LogEntry list"
  player_status :: PlayerStatus
  enemy_status :: EnemyStatus
  combat_stats_dict :: "(string \<times> real) list option"

text \<open>
  \<open>CombatInstance.__init__(player, enemy, combat_id)\<close> at game time \<open>start\<close>;
  \<open>aggression\<close> is the random number of \<open>random.uniform(0.5, 1.5)\<close>.
\<close>

definition CombatInstance_init ::
  "store \<Rightarrow> nat \<Rightarrow> nat \<Rightarrow> string \<Rightarrow> real \<Rightarrow> real \<Rightarrow> CombatInstance" where
  "CombatInstance_init h p en cid start aggression =
     \<lparr> combat_id = cid, player = p, enemy = en, start_time = start, end_time = None, turn = 1,
       last_action_time = start, combat_log = [],
       player_status = \<lparr> ps_stamina = 100, ps_defense_bonus = 0, combo_counter = 0,
                         ps_dodge_chance = dodge_chance (stats (h p)),
                         ps_crit_chance = critical_chance (stats (h p)) \<rparr>,
       enemy_status = \<lparr> es_defense_bonus = 0, aggression_level = aggression \<rparr>,
       combat_stats_dict = None \<rparr>"

datatype action_message = AttackDone | DefenseTaken | UnknownAction

definition add_combat_log ::
  "CombatInstance \<Rightarrow> log_message \<Rightarrow> string \<Rightarrow> real \<Rightarrow> CombatInstance" where
  "add_combat_log c msg message_type game_time =
     c\<lparr>combat_log := combat_log c @
          [\<lparr>log_text = msg, log_type = message_type, log_turn = turn c, log_time = game_time\<rparr>]\<rparr>"

text \<open>
  \<open>self.combat_stats[k] += v\<close>: \<open>AttributeError\<close> when the attribute does not exist,
  \<open>KeyError\<close> when the key is missing.
\<close>

definition dict_incr ::
  "(string \<times> real) list option \<Rightarrow> string \<Rightarrow> real \<Rightarrow> error + (string \<times> real) list" where
  "dict_incr counters k v =
     (case counters of
        None \<Rightarrow> Inl AttributeError
      | Some d \<Rightarrow>
          (case map_of d k of None \<Rightarrow> Inl KeyError | Some old \<Rightarrow> Inr (dict_set d k (old + v))))"

text \<open>\<open>CombatInstance.is_finished\<close> and \<open>CombatInstance.get_winner\<close>.\<close>

definition is_finished :: "store \<Rightarrow> CombatInstance \<Rightarrow> bool" where
  "is_finished h c =
     (\<not> is_alive (h (player c)) \<or> \<not> is_alive (h (enemy c)) \<or> end_time c \<noteq> None)"

definition get_winner :: "store \<Rightarrow> CombatInstance \<Rightarrow> nat option" where
  "get_winner h c =
    (if \<not> is_finished h c then None
     else if \<not> is_alive (h (enemy c)) then Some (player c)
     else if \<not> is_alive (h (player c)) then Some (enemy c)
     else None)"

text \<open>
  \<open>CombatInstance._handle_player_attack\<close>; \<open>crit_roll\<close> is its random number. The
  result is the store and the session as the call leaves them, and what it returns or
  raises. The enemy's health is written directly, before the damage counter is updated
  and before the combo counter is looked at; a raise of the damage counter leaves the
  health written.
\<close>

definition handle_player_attack ::
  "store \<Rightarrow> CombatInstance \<Rightarrow> real \<Rightarrow> real
     \<Rightarrow> store \<times> CombatInstance \<times> (error + (bool \<times> action_message))" where
  "handle_player_attack h c crit_roll game_time =
    (let base0 = strength (stats (h (player c)));
         base1 = (case inventory (h (player c)) of
                    None \<Rightarrow> base0
                  | Some invt \<Rightarrow>
                      (case weapon_damage invt of None \<Rightarrow> base0 | Some d \<Rightarrow> base0 + d));
         is_crit = (crit_roll < ps_crit_chance (player_status c))
     in case (if is_crit
              then (case dict_incr (combat_stats_dict c) ''critical_hits'' 1 of
                      Inl err \<Rightarrow> Inl err
                    | Inr d \<Rightarrow>
                        Inr (base1 * 2,
                             add_combat_log (c\<lparr>combat_stats_dict := Some d\<rparr>)
                               CriticalHitLog ''success'' game_time))
              else Inr (base1, c)) of
          Inl err \<Rightarrow> (h, c, Inl err)
        | Inr (base_damage, c1) \<Rightarrow>
            (let final_damage =
                   max 1 (base_damage -
                          (defense (stats (h (enemy c1))) + es_defense_bonus (enemy_status c1)));
                 h1 = h(enemy c1 := (h (enemy c1))\<lparr>stats := (stats (h (enemy c1)))
                        \<lparr>health := health (stats (h (enemy c1))) - final_damage\<rparr>\<rparr>)
             in case dict_incr (combat_stats_dict c1) ''player_damage_dealt'' final_damage of
                  Inl err \<Rightarrow> (h1, c1, Inl err)
                | Inr d \<Rightarrow>
                    (let c2 = c1\<lparr>combat_stats_dict := Some d\<rparr>;
                         c3 = c2\<lparr>player_status := (player_status c2)
                                \<lparr>combo_counter := combo_counter (player_status c2) + 1\<rparr>\<rparr>;
                         combo = (combo_counter (player_status c3) \<ge> 3);
                         logged_damage = (if combo then final_damage * (12 / 10) else final_damage);
                         c4 = (if combo then add_combat_log c3 ComboBonusLog ''success'' game_time
                               else c3);
                         c5 = add_combat_log c4 (DamageDealtLog logged_damage is_crit)
                                ''success'' game_time
                     in (h1, c5, Inr (True, AttackDone)))))"

text \<open>
  \<open>CombatInstance._handle_player_defend\<close>: the participants are entities, which have no
  \<open>get_skill_level\<close>, so the bonus is 5.
\<close>

definition handle_player_defend ::
  "CombatInstance \<Rightarrow> real \<Rightarrow> CombatInstance \<times> (bool \<times> action_message)" where
  "handle_player_defend c game_time =
    (let defense_bonus = 5;
         c1 = c\<lparr>player_status := (player_status c)\<lparr>ps_defense_bonus := defense_bonus\<rparr>\<rparr>;
         c2 = c1\<lparr>player_status := (player_status c1)
                \<lparr>ps_stamina := min 100 (ps_stamina (player_status c1) + 20)\<rparr>\<rparr>
     in (add_combat_log c2 (DefenseStanceLog defense_bonus) ''info'' game_time,
         (True, DefenseTaken)))"

text \<open>
  \<open>CombatInstance.handle_player_action\<close>. The handlers of \<open>use_ability\<close>, \<open>use_item\<close>
  and \<open>escape\<close> are defined nowhere, so these actions raise \<open>AttributeError\<close> before
  anything is written.
\<close>

definition handle_player_action ::
  "store \<Rightarrow> CombatInstance \<Rightarrow> string \<Rightarrow> real \<Rightarrow> real
     \<Rightarrow> store \<times> CombatInstance \<times> (error + (bool \<times> action_message))" where
  "handle_player_action h c action_type crit_roll game_time =
    (if action_type = ''attack'' then handle_player_attack h c crit_roll game_time
     else if action_type = ''defend'' then
       (case handle_player_defend c game_time of (c1, res) \<Rightarrow> (h, c1, Inr res))
     else if action_type = ''use_ability'' then (h, c, Inl AttributeError)
     else if action_type = ''use_item'' then (h, c, Inl AttributeError)
     else if action_type = ''escape'' then (h, c, Inl AttributeError)
     else (h, c, Inr (False, UnknownAction)))"

text \<open>
  \<open>CombatInstance.update\<close>: nothing happens once the session is finished; otherwise the
  first call, \<open>self._update_status_effects\<close>, is of a method the class has not, and
  raises before anything is written.
\<close>

definition CombatInstance_update ::
  "store \<Rightarrow> CombatInstance \<Rightarrow> real \<Rightarrow> store \<times> CombatInstance \<times> error option" where
  "CombatInstance_update h c game_time =
     (if is_finished h c then (h, c, None) else (h, c, Some AttributeError))"

section \<open>Properties\<close>

subsection \<open>Concrete entities and effects\<close>

text \<open>
  \<open>Entity.__init__\<close> on data that gives only the required \<open>name\<close> and \<open>type\<close>: the
  defaults of every other field. \<open>new_StatusEffect\<close> is the dataclass constructor with the
  four fields that have no default.
\<close>

definition new_Position :: Position where
  "new_Position = \<lparr> pos_x = 0, pos_y = 0, pos_z = 0 \<rparr>"

definition new_Entity :: "string \<Rightarrow> string \<Rightarrow> Entity" where
  "new_Entity eid nm =
     \<lparr> entity_id = eid, entity_name = nm, level = 1, stats = default_Stats,
       position = new_Position, status_effects = [], is_alive = True, in_combat = False,
       last_attack_time = 0, attack_cooldown = 1, combat_stats = new_CombatStats,
       inventory = None, abilities = [], resistances = [], cooldowns = [] \<rparr>"

definition new_StatusEffect ::
  "string \<Rightarrow> string \<Rightarrow> (string \<times> real) list \<Rightarrow> int \<Rightarrow> StatusEffect" where
  "new_StatusEffect n ty mods dur =
     \<lparr> name = n, effect_type = ty, stat_modifiers = mods, duration = dur, tick_interval = 1,
       last_tick = 0, description = [], is_permanent = False, can_stack = False, icon = [] \<rparr>"

subsection \<open>Clamping of stats\<close>

lemma getattr_stat_cases:
  "getattr_stat s n = Some x \<Longrightarrow>
     n \<in> {''health'', ''max_health'', ''stamina'', ''max_stamina'', ''mana'', ''max_mana'',
          ''strength'', ''defense'', ''agility'', ''intelligence'', ''critical_chance'',
          ''dodge_chance''}"
  unfolding getattr_stat_def by (simp split: if_splits)

lemma modify_stat_non_max:
  assumes "\<not> startswith_max n" "getattr_stat s n = Some cur"
    and "case getattr_stat s (''max_'' @ n) of None \<Rightarrow> True | Some m \<Rightarrow> 0 \<le> m"
  shows "\<exists>x. getattr_stat (modify_stat s n v p) n = Some x \<and> 0 \<le> x \<and>
           (case getattr_stat (modify_stat s n v p) (''max_'' @ n) of
              None \<Rightarrow> True | Some m \<Rightarrow> x \<le> m)"
  using getattr_stat_cases [OF assms(2)] assms
  by (elim insertE emptyE; simp add: modify_stat_def getattr_stat_def setattr_stat_def startswith_max_def Let_def)

lemma modify_stat_max:
  assumes "startswith_max n" "getattr_stat s n = Some cur"
  shows "\<exists>x. getattr_stat (modify_stat s n v p) n = Some x \<and> 1 \<le> x"
  using getattr_stat_cases [OF assms(2)] assms
  by (elim insertE emptyE; simp add: modify_stat_def getattr_stat_def setattr_stat_def startswith_max_def Let_def)

lemma modify_stat_keeps_max:
  assumes "1 \<le> max_health s" "1 \<le> max_stamina s" "1 \<le> max_mana s"
  shows "1 \<le> max_health (modify_stat s n v p) \<and> 1 \<le> max_stamina (modify_stat s n v p)
           \<and> 1 \<le> max_mana (modify_stat s n v p)"
proof (cases "getattr_stat s n")
  case None
  then show ?thesis using assms by (simp add: modify_stat_def)
next
  case (Some cur)
  from getattr_stat_cases [OF Some] Some assms show ?thesis
    by (elim insertE emptyE; simp add: modify_stat_def getattr_stat_def setattr_stat_def startswith_max_def Let_def)
qed


text \<open>
  C3 (amended). After \<open>modify_stat\<close> on a stat that is not a \<open>max_\<close> stat and whose
  \<open>max_\<close> counterpart, if it has one, is not negative, the stat is at least 0 and at most
  its \<open>max_\<close> counterpart. After \<open>modify_stat\<close> on a \<open>max_\<close> stat, that stat is at
  least 1. If the three \<open>max_\<close> stats are at least 1 before a \<open>modify_stat\<close>, they are
  after it. Construction does not establish the bound.
\<close>

theorem modify_stat_clamping:
  "(\<not> startswith_max n \<and> getattr_stat s n = Some cur \<and>
      (case getattr_stat s (''max_'' @ n) of None \<Rightarrow> True | Some m \<Rightarrow> 0 \<le> m) \<longrightarrow>
      (\<exists>x. getattr_stat (modify_stat s n v p) n = Some x \<and> 0 \<le> x \<and>
           (case getattr_stat (modify_stat s n v p) (''max_'' @ n) of
              None \<Rightarrow> True | Some m \<Rightarrow> x \<le> m)))
   \<and> (startswith_max n \<and> getattr_stat s n = Some cur \<longrightarrow>
      (\<exists>x. getattr_stat (modify_stat s n v p) n = Some x \<and> 1 \<le> x))
   \<and> (1 \<le> max_health s \<and> 1 \<le> max_stamina s \<and> 1 \<le> max_mana s \<longrightarrow>
      1 \<le> max_health (modify_stat s n v p) \<and> 1 \<le> max_stamina (modify_stat s n v p)
        \<and> 1 \<le> max_mana (modify_stat s n v p))"
  using modify_stat_non_max [of n s cur v p] modify_stat_max [of n s cur v p]
    modify_stat_keeps_max [of s n v p]
  by blast

text \<open>The three parts at the default stats.\<close>

theorem modify_stat_clamping_witness:
  "\<not> startswith_max ''health'' \<and> getattr_stat default_Stats ''health'' = Some 100
   \<and> getattr_stat default_Stats ''max_health'' = Some 100
   \<and> (\<exists>x. getattr_stat (modify_stat default_Stats ''health'' (- 150) False) ''health'' = Some x
          \<and> 0 \<le> x \<and> x \<le> 100)
   \<and> startswith_max ''max_mana'' \<and> getattr_stat default_Stats ''max_mana'' = Some 0
   \<and> (\<exists>x. getattr_stat (modify_stat default_Stats ''max_mana'' (1 / 2) True) ''max_mana'' = Some x
          \<and> 1 \<le> x)
   \<and> 1 \<le> max_health (default_Stats\<lparr>max_mana := 1\<rparr>)
   \<and> 1 \<le> max_mana (modify_stat (default_Stats\<lparr>max_mana := 1\<rparr>) ''max_mana'' (- 5) False)"
  using modify_stat_clamping [of "''health''" default_Stats 100 "- 150" False]
    modify_stat_clamping [of "''max_mana''" default_Stats 0 "1 / 2" True]
    modify_stat_clamping [of "''max_mana''" "default_Stats\<lparr>max_mana := 1\<rparr>" 1 "- 5" False]
  by (simp add: getattr_stat_def setattr_stat_def modify_stat_def startswith_max_def
      default_Stats_def)

text \<open>
  C3 as stated fails after construction: the default \<open>max_mana\<close> is 0.
\<close>

theorem default_max_mana_below_one:
  "\<not> (1 \<le> max_health default_Stats \<and> 1 \<le> max_stamina default_Stats
        \<and> 1 \<le> max_mana default_Stats)"
  by (simp add: default_Stats_def)

subsection \<open>Applying and removing an effect\<close>

text \<open>
  C2. \<open>remove\<close> multiplies by \<open>1 - m\<close> what \<open>apply\<close> multiplied by \<open>1 + m\<close>, so an
  effect of +50 percent strength on the default strength 10 gives 15 when applied and 7.5,
  not 10, when removed.
\<close>

theorem apply_remove_not_inverse:
  "strength (stats (new_Entity ''e1'' ''Wolf'')) = 10
   \<and> strength (stats (StatusEffect_apply
        (new_StatusEffect ''rage'' ''buff'' [(''strength'', 1 / 2)] 3)
        (new_Entity ''e1'' ''Wolf''))) = 15
   \<and> strength (stats (StatusEffect_remove
        (new_StatusEffect ''rage'' ''buff'' [(''strength'', 1 / 2)] 3)
        (StatusEffect_apply
           (new_StatusEffect ''rage'' ''buff'' [(''strength'', 1 / 2)] 3)
           (new_Entity ''e1'' ''Wolf'')))) = 15 / 2"
  by (simp add: StatusEffect_apply_def StatusEffect_remove_def new_StatusEffect_def
      new_Entity_def default_Stats_def modify_stat_def getattr_stat_def setattr_stat_def
      startswith_max_def)

subsection \<open>Dodge and critical chance\<close>

text \<open>
  C6 (amended). The chances that \<open>_try_dodge\<close> and \<open>_is_critical_hit\<close> compare the
  random number with never exceed 0.75, whatever effects are active: a random number of
  0.75 or more neither dodges nor hits critically. (No bound holds for \<open>current_stats\<close>.)
\<close>

theorem roll_chances_capped:
  "try_dodge_chance e \<le> 75 / 100 \<and> critical_hit_chance e \<le> 75 / 100
   \<and> (75 / 100 \<le> roll \<longrightarrow> \<not> try_dodge e roll \<and> \<not> is_critical_hit e roll)"
proof -
  have dodge: "try_dodge_chance e \<le> 75 / 100"
    unfolding try_dodge_chance_def by (rule min.cobounded1)
  have crit: "critical_hit_chance e \<le> 75 / 100"
    unfolding critical_hit_chance_def by (rule min.cobounded1)
  from dodge crit show ?thesis
    by (auto simp: try_dodge_def is_critical_hit_def)
qed

text \<open>An entity with an effect of +400 percent dodge chance does not dodge a roll of 0.8.\<close>

theorem roll_chances_capped_witness:
  "try_dodge_chance
     (add_status_effect (new_Entity ''e1'' ''Wolf'')
        (new_StatusEffect ''blur'' ''buff'' [(''dodge_chance'', 4)] 3)) \<le> 75 / 100
   \<and> (75 / 100 :: real) \<le> 8 / 10
   \<and> \<not> try_dodge
        (add_status_effect (new_Entity ''e1'' ''Wolf'')
           (new_StatusEffect ''blur'' ''buff'' [(''dodge_chance'', 4)] 3)) (8 / 10)"
  using roll_chances_capped
    [of "add_status_effect (new_Entity ''e1'' ''Wolf'')
           (new_StatusEffect ''blur'' ''buff'' [(''dodge_chance'', 4)] 3)" "8 / 10"]
  by simp

text \<open>
  C6 as stated fails for \<open>current_stats\<close>: after an effect of +400 percent dodge chance
  is attached to an entity of base chance 0.05, \<open>current_stats.dodge_chance\<close> is 1.25
  (the effect is applied to the base stat and again in \<open>current_stats\<close>).
\<close>

theorem current_stats_dodge_uncapped:
  "dodge_chance (current_stats
     (add_status_effect (new_Entity ''e1'' ''Wolf'')
        (new_StatusEffect ''blur'' ''buff'' [(''dodge_chance'', 4)] 3))) = 5 / 4
   \<and> \<not> dodge_chance (current_stats
     (add_status_effect (new_Entity ''e1'' ''Wolf'')
        (new_StatusEffect ''blur'' ''buff'' [(''dodge_chance'', 4)] 3))) \<le> 75 / 100"
  by (simp add: current_stats_def add_status_effect_def StatusEffect_apply_def
      new_StatusEffect_def new_Entity_def default_Stats_def modify_stat_def getattr_stat_def
      setattr_stat_def startswith_max_def)

subsection \<open>Dead actors\<close>

text \<open>
  C5. On an actor that is not alive, \<open>take_damage\<close> returns \<open>(0, False, False)\<close> and
  \<open>heal\<close> returns 0, and \<open>deal_damage\<close> returns \<open>(0, False, False)\<close> when the target or
  the attacker is not alive; each of these calls returns normally and leaves the actor (the
  whole store, for \<open>deal_damage\<close>) as it was.
\<close>

theorem dead_actor_no_op:
  "(\<not> is_alive e \<longrightarrow>
      take_damage fl e dmg damage_type roll = Inr (e, (0, False, False))
      \<and> heal e amount = (e, 0))
   \<and> (\<not> is_alive (h target) \<or> \<not> is_alive (h self) \<longrightarrow>
      deal_damage fl h self target base_damage damage_type crit_roll dodge_roll
        = Inr (h, (0, False, False)))"
  by (simp add: take_damage_def heal_def deal_damage_def)

text \<open>A wolf that died, hit, healed, attacked and attacking, under every rounding.\<close>

theorem dead_actor_no_op_witness:
  "\<not> is_alive (die (new_Entity ''e1'' ''Wolf''))
   \<and> (\<forall>fl. take_damage fl (die (new_Entity ''e1'' ''Wolf'')) 30 ''physical'' (1 / 2)
            = Inr (die (new_Entity ''e1'' ''Wolf''), (0, False, False)))
   \<and> heal (die (new_Entity ''e1'' ''Wolf'')) 25 = (die (new_Entity ''e1'' ''Wolf''), 0)
   \<and> \<not> is_alive (((\<lambda>r. new_Entity ''e0'' ''Hero'')(1 := die (new_Entity ''e1'' ''Wolf''))) 1)
   \<and> (\<forall>fl. deal_damage fl
              ((\<lambda>r. new_Entity ''e0'' ''Hero'')(1 := die (new_Entity ''e1'' ''Wolf'')))
              0 1 30 ''physical'' (1 / 2) (1 / 2)
            = Inr ((\<lambda>r. new_Entity ''e0'' ''Hero'')(1 := die (new_Entity ''e1'' ''Wolf'')),
                   (0, False, False)))
   \<and> (\<forall>fl. deal_damage fl
              ((\<lambda>r. new_Entity ''e0'' ''Hero'')(1 := die (new_Entity ''e1'' ''Wolf'')))
              1 0 30 ''physical'' (1 / 2) (1 / 2)
            = Inr ((\<lambda>r. new_Entity ''e0'' ''Hero'')(1 := die (new_Entity ''e1'' ''Wolf'')),
                   (0, False, False)))"
proof -
  let ?w = "die (new_Entity ''e1'' ''Wolf'')"
  let ?h = "(\<lambda>r. new_Entity ''e0'' ''Hero'')(1 := ?w)"
  have dead: "\<not> is_alive ?w"
    by (simp add: die_def new_Entity_def)
  have "take_damage fl ?w 30 ''physical'' (1 / 2) = Inr (?w, (0, False, False))
        \<and> heal ?w 25 = (?w, 0)
        \<and> deal_damage fl ?h 0 1 30 ''physical'' (1 / 2) (1 / 2) = Inr (?h, (0, False, False))
        \<and> deal_damage fl ?h 1 0 30 ''physical'' (1 / 2) (1 / 2) = Inr (?h, (0, False, False))"
    for fl
    using dead
      dead_actor_no_op [where e = ?w and fl = fl and dmg = 30 and damage_type = "''physical''"
        and roll = "1 / 2" and amount = 25 and h = ?h and target = 1 and self = 0
        and base_damage = 30 and crit_roll = "1 / 2" and dodge_roll = "1 / 2"]
      dead_actor_no_op [where e = ?w and fl = fl and dmg = 30 and damage_type = "''physical''"
        and roll = "1 / 2" and amount = 25 and h = ?h and target = 0 and self = 1
        and base_damage = 30 and crit_roll = "1 / 2" and dodge_roll = "1 / 2"]
    by simp
  with dead show ?thesis by simp
qed

subsection \<open>The winner of a session\<close>

text \<open>
  Stores of a hero (reference 0) and a wolf (reference 1), alive or dead, and the session
  that \<open>CombatInstance(hero, wolf, 'c0')\<close> builds at game time 0.
\<close>

definition both_alive :: store where
  "both_alive = (\<lambda>r. new_Entity ''e0'' ''Hero'')(1 := new_Entity ''e1'' ''Wolf'')"

definition enemy_dead :: store where
  "enemy_dead = both_alive(1 := die (new_Entity ''e1'' ''Wolf''))"

definition player_dead :: store where
  "player_dead = both_alive(0 := die (new_Entity ''e0'' ''Hero''))"

definition both_dead :: store where
  "both_dead = enemy_dead(0 := die (new_Entity ''e0'' ''Hero''))"

definition duel :: CombatInstance where
  "duel = CombatInstance_init both_alive 0 1 ''c0'' 0 1"

text \<open>
  C10. \<open>get_winner\<close> is \<open>None\<close> while the session is not finished. In a finished
  session it is the player when the enemy is not alive (also when neither is alive), the
  enemy when only the player is not alive, and \<open>None\<close> when both are alive and the session
  has an end time.
\<close>

theorem get_winner_cases:
  "(\<not> is_finished h c \<longrightarrow> get_winner h c = None)
   \<and> (is_finished h c \<and> \<not> is_alive (h (enemy c)) \<longrightarrow> get_winner h c = Some (player c))
   \<and> (is_finished h c \<and> is_alive (h (enemy c)) \<and> \<not> is_alive (h (player c)) \<longrightarrow>
        get_winner h c = Some (enemy c))
   \<and> (is_alive (h (player c)) \<and> is_alive (h (enemy c)) \<and> end_time c \<noteq> None \<longrightarrow>
        is_finished h c \<and> get_winner h c = None)"
  by (simp add: get_winner_def is_finished_def)

text \<open>An open session, the three ways a participant is dead, and an interrupted session.\<close>

theorem get_winner_cases_witness:
  "\<not> is_finished both_alive duel
   \<and> get_winner both_alive duel = None
   \<and> is_finished enemy_dead duel
   \<and> get_winner enemy_dead duel = Some 0
   \<and> is_finished both_dead duel
   \<and> get_winner both_dead duel = Some 0
   \<and> is_finished player_dead duel
   \<and> get_winner player_dead duel = Some 1
   \<and> is_finished both_alive (duel\<lparr>end_time := Some 7\<rparr>)
   \<and> get_winner both_alive (duel\<lparr>end_time := Some 7\<rparr>) = None"
proof -
  have alive: "is_alive (new_Entity ''e0'' ''Hero'')" "is_alive (new_Entity ''e1'' ''Wolf'')"
    by (simp_all add: new_Entity_def)
  have dead: "\<not> is_alive (die (new_Entity ''e0'' ''Hero''))"
    "\<not> is_alive (die (new_Entity ''e1'' ''Wolf''))"
    by (simp_all add: die_def new_Entity_def)
  show ?thesis
    using alive dead
      get_winner_cases [of both_alive duel]
      get_winner_cases [of enemy_dead duel]
      get_winner_cases [of both_dead duel]
      get_winner_cases [of player_dead duel]
      get_winner_cases [of both_alive "duel\<lparr>end_time := Some 7\<rparr>"]
    by (simp add: is_finished_def duel_def CombatInstance_init_def both_alive_def
        enemy_dead_def player_dead_def both_dead_def)
qed

subsection \<open>Damage and defense\<close>




















subsection \<open>Actions on a finished session\<close>

text \<open>
  A session on which \<open>self.combat_stats\<close> has been assigned from outside, with the three
  counters the handlers update at 0.
\<close>

definition with_counters :: "CombatInstance \<Rightarrow> CombatInstance" where
  "with_counters c =
     c\<lparr>combat_stats_dict :=
         Some [(''rounds'', 0), (''critical_hits'', 0), (''player_damage_dealt'', 0)]\<rparr>"

text \<open>
  C4. The claim asks that no action changes a participant's stats once \<open>is_finished\<close>
  holds. The attack handler has no such guard. On a finished session, whenever an attack
  returns, and whenever an attack that is not critical ends, returning or raising, the
  enemy's health is lower by at least 1 than before.
\<close>

theorem attack_on_finished_session:
  "(is_finished h c
      \<and> handle_player_action h c ''attack'' crit_roll game_time = (h', c', Inr r)
      \<longrightarrow> health (stats (h' (enemy c))) \<le> health (stats (h (enemy c))) - 1)
   \<and> (is_finished h c \<and> \<not> crit_roll < ps_crit_chance (player_status c)
      \<and> handle_player_action h c ''attack'' crit_roll game_time = (h', c', out)
      \<longrightarrow> health (stats (h' (enemy c))) \<le> health (stats (h (enemy c))) - 1)"
  by (auto simp: handle_player_action_def handle_player_attack_def Let_def add_combat_log_def
      split: if_splits sum.splits option.splits)

text \<open>
  The hero attacks the wolf that is already dead (health 0), so the session is finished.
  On the session as the constructor builds it the attack writes the wolf's health, which
  becomes \<open>-5\<close>, and then raises \<open>AttributeError\<close>; with the counters assigned it is
  accepted, and the wolf's health is \<open>-5\<close> as well.
\<close>

theorem attack_on_finished_session_witness:
  "is_finished enemy_dead duel
   \<and> combat_stats_dict duel = None
   \<and> health (stats (enemy_dead 1)) = 0
   \<and> \<not> 1 / 2 < ps_crit_chance (player_status duel)
   \<and> (\<exists>h' c'. handle_player_action enemy_dead duel ''attack'' (1 / 2) 3
                  = (h', c', Inl AttributeError)
        \<and> health (stats (h' 1)) = - 5
        \<and> health (stats (h' 1)) \<le> health (stats (enemy_dead 1)) - 1)
   \<and> is_finished enemy_dead (with_counters duel)
   \<and> (\<exists>h' c'. handle_player_action enemy_dead (with_counters duel) ''attack'' (1 / 2) 3
                  = (h', c', Inr (True, AttackDone))
        \<and> health (stats (h' 1)) = - 5
        \<and> health (stats (h' 1)) \<le> health (stats (enemy_dead 1)) - 1)"
proof -
  have fin: "is_finished enemy_dead duel" "is_finished enemy_dead (with_counters duel)"
    by (simp_all add: is_finished_def duel_def with_counters_def CombatInstance_init_def
        enemy_dead_def both_alive_def die_def new_Entity_def)
  have none: "combat_stats_dict duel = None"
    by (simp add: duel_def CombatInstance_init_def)
  have h0: "health (stats (enemy_dead 1)) = 0"
    by (simp add: enemy_dead_def both_alive_def die_def new_Entity_def)
  have nc: "\<not> 1 / 2 < ps_crit_chance (player_status duel)"
    by (simp add: duel_def CombatInstance_init_def both_alive_def new_Entity_def
        default_Stats_def)
  have en: "enemy duel = 1" "enemy (with_counters duel) = 1"
    by (simp_all add: duel_def with_counters_def CombatInstance_init_def)
  obtain h' c' where
    run: "handle_player_action enemy_dead duel ''attack'' (1 / 2) 3
            = (h', c', Inl AttributeError)"
    and h1: "health (stats (h' 1)) = - 5"
    by (simp add: handle_player_action_def handle_player_attack_def Let_def add_combat_log_def
        dict_incr_def duel_def CombatInstance_init_def enemy_dead_def both_alive_def die_def
        new_Entity_def default_Stats_def)
  obtain h'' c'' where
    run2: "handle_player_action enemy_dead (with_counters duel) ''attack'' (1 / 2) 3
             = (h'', c'', Inr (True, AttackDone))"
    and h2: "health (stats (h'' 1)) = - 5"
    by (simp add: handle_player_action_def handle_player_attack_def Let_def add_combat_log_def
        dict_incr_def duel_def with_counters_def CombatInstance_init_def enemy_dead_def
        both_alive_def die_def new_Entity_def default_Stats_def)
  from attack_on_finished_session
    [of enemy_dead duel "1 / 2" 3 h' c' "(True, AttackDone)" "Inl AttributeError"]
    fin(1) nc run en(1)
  have a: "health (stats (h' 1)) \<le> health (stats (enemy_dead 1)) - 1" by simp
  from attack_on_finished_session
    [of enemy_dead "with_counters duel" "1 / 2" 3 h'' c'' "(True, AttackDone)"
      "Inr (True, AttackDone)"]
    fin(2) run2 en(2)
  have b: "health (stats (h'' 1)) \<le> health (stats (enemy_dead 1)) - 1" by simp
  from fin none h0 nc run h1 a run2 h2 b show ?thesis by blast
qed

text \<open>
  What does hold on a finished session: \<open>update\<close> returns at once, and the defense
  stance changes no entity.
\<close>

lemma update_on_finished_session:
  "is_finished h c \<Longrightarrow> CombatInstance_update h c game_time = (h, c, None)"
  by (simp add: CombatInstance_update_def)

lemma defend_keeps_store:
  "handle_player_action h c ''defend'' crit_roll game_time = (h', c', r) \<Longrightarrow> h' = h"
  by (auto simp: handle_player_action_def split: prod.splits)

subsection \<open>The combo bonus\<close>

text \<open>
  C9. On the session with the counters assigned and the combo counter at 2, an attack of
  the hero (strength 10) on the wolf (defense 5, health 100) that is not critical raises
  the counter to 3 and logs 6 damage, the bonus of 20 percent included, but the wolf's
  health is 95: the 5 damage of the attack without the bonus, which is also what the same
  attack does with the counter at 0.
\<close>

theorem combo_bonus_not_applied:
  "(\<exists>h' c'. handle_player_attack both_alive
       ((with_counters duel)
          \<lparr>player_status := (player_status (with_counters duel))\<lparr>combo_counter := 2\<rparr>\<rparr>)
       (1 / 2) 3 = (h', c', Inr (True, AttackDone))
      \<and> combo_counter (player_status c') = 3
      \<and> health (stats (h' 1)) = 95
      \<and> map log_text (combat_log c') = [ComboBonusLog, DamageDealtLog 6 False])
   \<and> (\<exists>h' c'. handle_player_attack both_alive (with_counters duel) (1 / 2) 3
        = (h', c', Inr (True, AttackDone))
      \<and> combo_counter (player_status c') = 1
      \<and> health (stats (h' 1)) = 95
      \<and> map log_text (combat_log c') = [DamageDealtLog 5 False])"
  by (simp add: handle_player_attack_def Let_def add_combat_log_def dict_incr_def
      with_counters_def duel_def CombatInstance_init_def both_alive_def new_Entity_def
      default_Stats_def)

subsection \<open>Failed uses of an ability\<close>

lemma deal_damage_dodged:
  assumes "deal_damage fl h self t base_damage damage_type crit_roll dodge_roll
             = Inr (h', (actual, True, crit))"
  shows "stats (h' self) = stats (h self) \<and> cooldowns (h' self) = cooldowns (h self)"
  using assms
  by (auto simp: deal_damage_def take_damage_def Let_def split: if_splits sum.splits)


lemma can_use_ability_messages:
  assumes "can_use_ability e ability_id now = Inr (ok, msg)"
  shows "msg \<noteq> OutOfRange \<and> (\<forall>tn an. msg \<noteq> Dodged tn an)"
  using assms
  by (auto simp: can_use_ability_def split: option.splits if_splits cost.splits sum.splits)

lemma use_ability_out_of_range:
  assumes "use_ability fl h self ability_id target pos now crit_roll dodge_roll rolls
             = Inr (h', (False, OutOfRange, effs))"
  shows "h' = h"
proof -
  from assms obtain ok msg where
    can: "can_use_ability (h self) ability_id now = Inr (ok, msg)"
    by (auto simp: use_ability_def split: sum.splits)
  note m = can_use_ability_messages [OF can]
  show ?thesis
  proof (cases ok)
    case False
    with assms can show ?thesis by (simp add: use_ability_def)
  next
    case True
    with assms can m show ?thesis
      by (auto simp: use_ability_def Let_def
          split: option.splits if_splits cost.splits sum.splits prod.splits bool.splits)
  qed
qed


lemma use_ability_dodged:
  assumes "use_ability fl h self ability_id target pos now crit_roll dodge_roll rolls
             = Inr (h', (False, Dodged tn an, effs))"
  shows "\<exists>ability c. map_of (abilities (h self)) ability_id = Some ability
           \<and> ability_cost ability = CostDict c
           \<and> stamina (stats (h' self)) = stamina (stats (h self)) - dict_get0 c ''stamina''
           \<and> mana (stats (h' self)) = mana (stats (h self)) - dict_get0 c ''mana''
           \<and> cooldowns (h' self) = cooldowns (h self)"
proof -
  from assms obtain ok msg where
    can: "can_use_ability (h self) ability_id now = Inr (ok, msg)"
    by (auto simp: use_ability_def split: sum.splits)
  note m = can_use_ability_messages [OF can]
  have ok: ok
    using assms can m by (cases ok) (auto simp: use_ability_def)
  from assms can ok obtain ability where
    ab: "map_of (abilities (h self)) ability_id = Some ability"
    by (auto simp: use_ability_def split: option.splits)
  from assms can ok ab obtain c where
    co: "ability_cost ability = CostDict c"
    by (auto simp: use_ability_def split: if_splits cost.splits)
  define h2 where
    "h2 = h(self := (h self)\<lparr>stats := (stats (h self))
             \<lparr>stamina := stamina (stats (h self)) - dict_get0 c ''stamina'',
              mana := mana (stats (h self)) - dict_get0 c ''mana''\<rparr>\<rparr>)"
  from assms can ok ab co obtain t actual crit where
    hit: "primary_damage fl h2 self ability target crit_roll dodge_roll
            = Inr (h', Some (t, actual, True, crit))"
    by (auto simp: use_ability_def Let_def h2_def
        split: if_splits sum.splits prod.splits option.splits bool.splits)
  then have "deal_damage fl h2 self t (ability_damage ability) ''physical'' crit_roll dodge_roll
               = Inr (h', (actual, True, crit))"
    by (auto simp: primary_damage_def split: option.splits if_splits sum.splits)
  from deal_damage_dodged [OF this]
  have "stats (h' self) = stats (h2 self)" "cooldowns (h' self) = cooldowns (h2 self)"
    by simp_all
  then have "stamina (stats (h' self)) = stamina (stats (h self)) - dict_get0 c ''stamina''"
    "mana (stats (h' self)) = mana (stats (h self)) - dict_get0 c ''mana''"
    "cooldowns (h' self) = cooldowns (h self)"
    by (simp_all add: h2_def)
  with ab co show ?thesis by blast
qed

text \<open>
  A hero with the ability \<open>strike\<close> (20 damage, 30 stamina, range 1, cooldown 3), and a
  wolf next to the hero or three units away.
\<close>

definition strike :: Ability where
  "strike = \<lparr> ability_name = ''Strike'', ability_damage = 20, ability_cooldown = 3,
     ability_cost = CostDict [(''stamina'', 30)], ability_effects = [],
     ability_requirements = \<lparr> req_level = None, req_stats = None, req_items = None \<rparr>,
     ability_range = 1, area_of_effect = 0 \<rparr>"

definition hero :: Entity where
  "hero = (new_Entity ''e0'' ''Hero'')\<lparr>abilities := [(''strike'', strike)]\<rparr>"

definition duel_near :: store where
  "duel_near = (\<lambda>r. hero)(1 := new_Entity ''e1'' ''Wolf'')"

definition duel_far :: store where
  "duel_far = (\<lambda>r. hero)
     (1 := (new_Entity ''e1'' ''Wolf'')\<lparr>position := \<lparr> pos_x = 3, pos_y = 0, pos_z = 0 \<rparr>\<rparr>)"

text \<open>
  C8 (amended). When \<open>use_ability\<close> fails because the target is out of range, nothing
  has been deducted: the range check comes before the cost is paid, and all entities are as
  before the call. When it fails because the primary target dodged, the stamina and mana
  cost of the ability has been deducted from the caller and is not refunded, and no
  cooldown has been set.
\<close>

theorem use_ability_failure_costs:
  "(use_ability fl h self ability_id target pos now crit_roll dodge_roll rolls
      = Inr (h', (False, OutOfRange, effs)) \<longrightarrow> h' = h)
   \<and> (use_ability fl h self ability_id target pos now crit_roll dodge_roll rolls
        = Inr (h', (False, Dodged tn an, effs)) \<longrightarrow>
      (\<exists>ability c. map_of (abilities (h self)) ability_id = Some ability
         \<and> ability_cost ability = CostDict c
         \<and> stamina (stats (h' self)) = stamina (stats (h self)) - dict_get0 c ''stamina''
         \<and> mana (stats (h' self)) = mana (stats (h self)) - dict_get0 c ''mana''
         \<and> cooldowns (h' self) = cooldowns (h self)))"
  using use_ability_out_of_range [of fl h self ability_id target pos now crit_roll dodge_roll rolls h' effs]
    use_ability_dodged [of fl h self ability_id target pos now crit_roll dodge_roll rolls h' tn an effs]
  by blast

lemma can_use_strike:
  "can_use_ability hero ''strike'' 0 = Inr (True, NoMessage)"
  by (simp add: can_use_ability_def hero_def strike_def new_Entity_def default_Stats_def
      is_on_cooldown_def dict_get0_def check_ability_requirements_def)

lemma strike_far:
  "use_ability fl duel_far 0 ''strike'' (Some 1) None 0 (1 / 2) (1 / 2) (\<lambda>r. (1 / 2, 1 / 2))
     = Inr (duel_far, (False, OutOfRange, []))"
  using can_use_strike
  by (simp add: use_ability_def duel_far_def is_in_ability_range_def distance_to_def
      hero_def strike_def new_Entity_def new_Position_def)

lemma strike_dodged:
  "\<exists>h'. use_ability fl duel_near 0 ''strike'' (Some 1) None 0 (1 / 2) (1 / 100)
            (\<lambda>r. (1 / 2, 1 / 2)) = Inr (h', (False, Dodged ''Wolf'' ''Strike'', []))
        \<and> stamina (stats (h' 0)) = 70"
  using can_use_strike
  by (simp add: use_ability_def duel_near_def is_in_ability_range_def distance_to_def
      hero_def strike_def new_Entity_def new_Position_def default_Stats_def Let_def
      primary_damage_def deal_damage_def take_damage_def try_dodge_def try_dodge_chance_def
      is_critical_hit_def critical_hit_chance_def current_stats_def add_effect_bonus_def
      dict_get0_def update_damage_stats_def new_CombatStats_def)

text \<open>
  The strike at the wolf three units away changes nothing; the strike that the wolf next to
  the hero dodges leaves the hero with 70 of 100 stamina and no cooldown.
\<close>

theorem use_ability_failure_costs_witness:
  "\<forall>fl. use_ability fl duel_far 0 ''strike'' (Some 1) None 0 (1 / 2) (1 / 2)
           (\<lambda>r. (1 / 2, 1 / 2)) = Inr (duel_far, (False, OutOfRange, []))
        \<and> (\<exists>h'. use_ability fl duel_near 0 ''strike'' (Some 1) None 0 (1 / 2) (1 / 100)
                   (\<lambda>r. (1 / 2, 1 / 2)) = Inr (h', (False, Dodged ''Wolf'' ''Strike'', []))
               \<and> stamina (stats (h' 0)) = stamina (stats (duel_near 0)) - 30
               \<and> mana (stats (h' 0)) = mana (stats (duel_near 0))
               \<and> cooldowns (h' 0) = cooldowns (duel_near 0))"
proof
  fix fl
  obtain h' where
    run: "use_ability fl duel_near 0 ''strike'' (Some 1) None 0 (1 / 2) (1 / 100)
            (\<lambda>r. (1 / 2, 1 / 2)) = Inr (h', (False, Dodged ''Wolf'' ''Strike'', []))"
    using strike_dodged [of fl] by blast
  have ab: "map_of (abilities (duel_near 0)) ''strike'' = Some strike"
    by (simp add: duel_near_def hero_def)
  from use_ability_failure_costs
    [of fl duel_near 0 "''strike''" "Some 1" None 0 "1 / 2" "1 / 100" "\<lambda>r. (1 / 2, 1 / 2)" h'
      "[]" "''Wolf''" "''Strike''"] run ab
  have "stamina (stats (h' 0)) = stamina (stats (duel_near 0)) - 30
        \<and> mana (stats (h' 0)) = mana (stats (duel_near 0))
        \<and> cooldowns (h' 0) = cooldowns (duel_near 0)"
    by (auto simp: strike_def dict_get0_def)
  with run strike_far [of fl]
  show "use_ability fl duel_far 0 ''strike'' (Some 1) None 0 (1 / 2) (1 / 2)
          (\<lambda>r. (1 / 2, 1 / 2)) = Inr (duel_far, (False, OutOfRange, []))
        \<and> (\<exists>h'. use_ability fl duel_near 0 ''strike'' (Some 1) None 0 (1 / 2) (1 / 100)
                   (\<lambda>r. (1 / 2, 1 / 2)) = Inr (h', (False, Dodged ''Wolf'' ''Strike'', []))
               \<and> stamina (stats (h' 0)) = stamina (stats (duel_near 0)) - 30
               \<and> mana (stats (h' 0)) = mana (stats (duel_near 0))
               \<and> cooldowns (h' 0) = cooldowns (duel_near 0))"
    by blast
qed

text \<open>
  C8 as stated fails for the range check: the hero can use the strike
  (\<open>can_use_ability\<close> passes), the wolf is out of range, the call fails, and the hero's
  stamina is still 100 although the strike costs 30.
\<close>

theorem out_of_range_deducts_nothing:
  "can_use_ability (duel_far 0) ''strike'' 0 = Inr (True, NoMessage)
   \<and> ability_cost strike = CostDict [(''stamina'', 30)]
   \<and> stamina (stats (duel_far 0)) = 100
   \<and> (\<forall>fl. \<exists>h'. use_ability fl duel_far 0 ''strike'' (Some 1) None 0 (1 / 2) (1 / 2)
                   (\<lambda>r. (1 / 2, 1 / 2)) = Inr (h', (False, OutOfRange, []))
               \<and> stamina (stats (h' 0)) = 100)"
proof -
  have "duel_far 0 = hero" by (simp add: duel_far_def)
  moreover have "stamina (stats hero) = 100"
    by (simp add: hero_def new_Entity_def default_Stats_def)
  moreover have "ability_cost strike = CostDict [(''stamina'', 30)]"
    by (simp add: strike_def)
  ultimately show ?thesis using can_use_strike strike_far by auto
qed

subsection \<open>The death invariant\<close>

text \<open>
  What holds of \<open>is_alive == (health > 0)\<close>: on an actor whose \<open>max_health\<close> is not
  negative it is kept by \<open>die\<close> and \<open>take_damage\<close>, and with a positive \<open>max_health\<close>
  by \<open>resurrect\<close> with the default fraction and by \<open>heal\<close> of an amount that is not
  negative after the healing modifiers.
\<close>

lemma modify_stat_dead_health:
  assumes "health s = 0" "0 \<le> max_health s"
  shows "health (modify_stat s n v True) = 0 \<and> 0 \<le> max_health (modify_stat s n v True)"
proof (cases "getattr_stat s n")
  case None
  then show ?thesis using assms by (simp add: modify_stat_def)
next
  case (Some cur)
  from getattr_stat_cases [OF Some] Some assms show ?thesis
    by (elim insertE emptyE;
        simp add: modify_stat_def getattr_stat_def setattr_stat_def startswith_max_def Let_def)
qed

lemma modify_stats_dead_health:
  assumes "health s = 0" "0 \<le> max_health s"
  shows "health (foldl (\<lambda>s (stat, modifier). modify_stat s stat (- modifier) True) s mods) = 0
         \<and> 0 \<le> max_health (foldl (\<lambda>s (stat, modifier). modify_stat s stat (- modifier) True) s mods)"
  using assms
proof (induction mods arbitrary: s)
  case Nil
  then show ?case by simp
next
  case (Cons a mods)
  obtain stat modifier where a: "a = (stat, modifier)" by (cases a)
  from modify_stat_dead_health [OF Cons.prems, of stat "- modifier"]
  show ?case using Cons.IH [of "modify_stat s stat (- modifier) True"] by (simp add: a)
qed

lemma remove_effect_dead:
  assumes "\<not> is_alive e" "health (stats e) = 0" "0 \<le> max_health (stats e)"
  shows "\<not> is_alive (remove_effect e eff) \<and> health (stats (remove_effect e eff)) = 0
         \<and> 0 \<le> max_health (stats (remove_effect e eff))"
  using assms modify_stats_dead_health [of "stats e" "stat_modifiers eff"]
  by (simp add: remove_effect_def StatusEffect_remove_def Let_def)

lemma remove_effects_dead:
  assumes "\<not> is_alive e" "health (stats e) = 0" "0 \<le> max_health (stats e)"
  shows "\<not> is_alive (foldl (\<lambda>en eff. if \<not> is_permanent eff then remove_effect en eff else en) e effs)
         \<and> health (stats (foldl (\<lambda>en eff. if \<not> is_permanent eff then remove_effect en eff else en) e effs)) = 0"
  using assms
proof (induction effs arbitrary: e)
  case Nil
  then show ?case by simp
next
  case (Cons a effs)
  show ?case
  proof (cases "is_permanent a")
    case True
    then show ?thesis using Cons.IH [OF Cons.prems] by simp
  next
    case False
    from remove_effect_dead [OF Cons.prems, of a]
    show ?thesis using Cons.IH [of "remove_effect e a"] False by simp
  qed
qed

lemma is_alive_remove_effects:
  "is_alive (foldl (\<lambda>en eff. if \<not> is_permanent eff then remove_effect en eff else en) e effs)
     = is_alive e"
  by (induction effs arbitrary: e)
     (simp_all add: remove_effect_def StatusEffect_remove_def Let_def)

lemma not_alive_die: "\<not> is_alive (die e)"
  by (simp add: die_def Let_def is_alive_remove_effects)

lemma die_of_alive:
  assumes "is_alive e" "0 \<le> max_health (stats e)"
  shows "\<not> is_alive (die e) \<and> health (stats (die e)) = 0"
  using assms
    remove_effects_dead
      [of "e\<lparr>is_alive := False, stats := (stats e)\<lparr>health := 0\<rparr>,
             combat_stats := (combat_stats e)\<lparr>deaths := deaths (combat_stats e) + 1\<rparr>\<rparr>"
          "status_effects e"]
  by (simp add: die_def Let_def)

lemma die_invariant:
  assumes "0 \<le> max_health (stats e)" "is_alive e = (0 < health (stats e))"
  shows "is_alive (die e) = (0 < health (stats (die e)))"
proof (cases "is_alive e")
  case True
  from die_of_alive [OF True assms(1)] show ?thesis by simp
next
  case False
  then show ?thesis using assms(2) by (simp add: die_def)
qed

lemma take_damage_invariant:
  assumes "0 \<le> max_health (stats e)" "is_alive e = (0 < health (stats e))"
    and "take_damage fl e dmg damage_type roll = Inr (e', res)"
  shows "is_alive e' = (0 < health (stats e'))"
proof (cases "is_alive e")
  case False
  with assms show ?thesis by (simp add: take_damage_def)
next
  case alive: True
  show ?thesis
  proof (cases "try_dodge e roll")
    case True
    with alive assms show ?thesis by (auto simp: take_damage_def)
  next
    case False
    with alive assms(3) obtain actual where
      calc: "calculate_damage fl e dmg damage_type = Inr actual"
      by (auto simp: take_damage_def split: sum.splits)
    define e2 where
      "e2 = e\<lparr>stats := (stats e)\<lparr>health := max 0 (health (stats e) - actual)\<rparr>,
              combat_stats := (combat_stats e)
                \<lparr>damage_taken := damage_taken (combat_stats e) + actual\<rparr>\<rparr>"
    have res: "e' = (if health (stats e2) \<le> 0 then die e2 else e2)"
      using assms(3) alive False calc by (auto simp: take_damage_def Let_def e2_def)
    have e2: "is_alive e2" "0 \<le> max_health (stats e2)"
      using alive assms(1) by (simp_all add: e2_def)
    show ?thesis
    proof (cases "health (stats e2) \<le> 0")
      case True
      then have "e' = die e2" using res by simp
      with die_of_alive [OF e2] show ?thesis by simp
    next
      case False
      then have "e' = e2" using res by simp
      with False e2 show ?thesis by simp
    qed
  qed
qed

lemma heal_invariant:
  assumes "0 < max_health (stats e)" "is_alive e = (0 < health (stats e))"
    and "0 \<le> amount * healing_modifier e"
  shows "is_alive (fst (heal e amount)) = (0 < health (stats (fst (heal e amount))))"
  using assms by (auto simp: heal_def Let_def)

lemma resurrect_invariant:
  assumes "0 < max_health (stats e)" "is_alive e = (0 < health (stats e))"
  shows "is_alive (resurrect e (1 / 2)) = (0 < health (stats (resurrect e (1 / 2))))"
  using assms by (auto simp: resurrect_def Let_def)

text \<open>
  A permanent aura that restores 5 health at each tick, and the wolf that carried it when
  it died: \<open>die\<close> keeps permanent effects. \<open>hot_aura\<close> is the same effect typed
  \<open>hot\<close>, whose tick goes through \<open>heal\<close>.
\<close>

definition aura :: StatusEffect where
  "aura = (new_StatusEffect ''aura'' ''resource_regen'' [(''health'', 5)] 0)
            \<lparr>is_permanent := True\<rparr>"

definition corpse :: Entity where
  "corpse = die (add_status_effect (new_Entity ''e1'' ''Wolf'') aura)"

definition hot_aura :: StatusEffect where
  "hot_aura = aura\<lparr>effect_type := ''hot''\<rparr>"

definition hot_corpse :: Entity where
  "hot_corpse = die (add_status_effect (new_Entity ''e1'' ''Wolf'') hot_aura)"

lemma corpse_state:
  "corpse = (new_Entity ''e1'' ''Wolf'')
     \<lparr>stats := default_Stats\<lparr>health := 0\<rparr>, status_effects := [aura], is_alive := False,
      combat_stats := new_CombatStats\<lparr>deaths := 1\<rparr>\<rparr>"
  by (simp add: corpse_def die_def add_status_effect_def StatusEffect_apply_def aura_def
      new_StatusEffect_def new_Entity_def default_Stats_def new_CombatStats_def
      modify_stat_def getattr_stat_def setattr_stat_def startswith_max_def Let_def)

lemma hot_corpse_state:
  "hot_corpse = (new_Entity ''e1'' ''Wolf'')
     \<lparr>stats := default_Stats\<lparr>health := 0\<rparr>, status_effects := [hot_aura], is_alive := False,
      combat_stats := new_CombatStats\<lparr>deaths := 1\<rparr>\<rparr>"
  by (simp add: hot_corpse_def hot_aura_def die_def add_status_effect_def StatusEffect_apply_def
      aura_def new_StatusEffect_def new_Entity_def default_Stats_def new_CombatStats_def
      modify_stat_def getattr_stat_def setattr_stat_def startswith_max_def Let_def)

lemma update_corpse:
  "update fl corpse 1 (\<lambda>i. 1 / 2)
     = ((new_Entity ''e1'' ''Wolf'')
         \<lparr>stats := default_Stats\<lparr>health := 5\<rparr>, status_effects := [aura\<lparr>last_tick := 1\<rparr>],
          is_alive := False, combat_stats := new_CombatStats\<lparr>deaths := 1\<rparr>\<rparr>,
        AttributeError)"
  unfolding corpse_state
  by (simp add: update_def update_status_effects_def update_resources_def
      get_regeneration_modifiers_def apply_effect_tick_def aura_def new_StatusEffect_def
      new_Entity_def default_Stats_def new_CombatStats_def
      getattr_stat_def setattr_stat_def Let_def)

lemma update_hot_corpse:
  "update fl hot_corpse 1 (\<lambda>i. 1 / 2)
     = ((new_Entity ''e1'' ''Wolf'')
         \<lparr>stats := default_Stats\<lparr>health := 0\<rparr>, status_effects := [hot_aura\<lparr>last_tick := 1\<rparr>],
          is_alive := False, combat_stats := new_CombatStats\<lparr>deaths := 1\<rparr>\<rparr>,
        AttributeError)"
  unfolding hot_corpse_state
  by (simp add: update_def update_status_effects_def update_resources_def
      get_regeneration_modifiers_def apply_effect_tick_def heal_def hot_aura_def aura_def
      new_StatusEffect_def new_Entity_def default_Stats_def new_CombatStats_def Let_def)

text \<open>
  C1. The dead wolf that carries the permanent aura has health 0 and is not alive, so
  \<open>is_alive == (health > 0)\<close> holds before \<open>update\<close>. The \<open>resource_regen\<close> tick
  writes its health without asking whether it is alive: when \<open>update\<close> ends (in the
  \<open>AttributeError\<close> of the missing \<open>_update_cooldowns\<close>, after the ticks and the death
  check) the wolf is not alive and its health is 5.
\<close>

theorem dead_actor_regenerates:
  "\<not> is_alive corpse \<and> health (stats corpse) = 0
   \<and> (\<exists>e'. update fl corpse 1 (\<lambda>i. 1 / 2) = (e', AttributeError)
          \<and> \<not> is_alive e' \<and> health (stats e') = 5
          \<and> is_alive e' \<noteq> (0 < health (stats e')))"
  unfolding update_corpse
  by (simp add: corpse_state new_Entity_def default_Stats_def)

text \<open>
  The same aura typed \<open>hot\<close> goes through \<open>heal\<close>, which refuses a dead actor: the
  wolf's health stays 0.
\<close>

lemma dead_actor_not_healed:
  "\<exists>e'. update fl hot_corpse 1 (\<lambda>i. 1 / 2) = (e', AttributeError)
        \<and> \<not> is_alive e' \<and> health (stats e') = 0"
  unfolding update_hot_corpse
  by (simp add: new_Entity_def default_Stats_def)

end
